theory Spec2Isabelle
  imports Main "HOL-Library.Sublist"
begin

section \<open>The logging bootstrap of \<^verbatim>\<open>src/utils/logger.py\<close>\<close>

text \<open>
  The module has two functions, \<^verbatim>\<open>setup_logging\<close> and \<^verbatim>\<open>get_logger\<close>. Both are glue
  over three libraries: pathlib and the file system, PyYAML, and loguru's process-wide
  \<^verbatim>\<open>logger\<close>. The embedding keeps the two functions line by line and makes everything
  they touch explicit:
  \<^item> the parsed configuration is a value of type \<open>yaml\<close>, a Python exception is a value
    of type \<open>error\<close>, and a call yields an \<open>outcome\<close> together with the world it left;
  \<^item> the world holds the file-system nodes, the standard streams, and loguru's handler
    list and level registry;
  \<^item> what the libraries compute and the module cannot see into (the YAML parser, the
    printed form of floats and containers, loguru's parsing of rotation and retention,
    the clock, the module's own \<^verbatim>\<open>__name__\<close>) is a field of the record \<open>runtime\<close>, so every
    theorem holds for whatever these are.
\<close>

subsection \<open>Configuration values and exceptions\<close>

text \<open>
  What \<^verbatim>\<open>yaml.safe_load\<close> returns: \<^verbatim>\<open>None\<close>, a bool, an int, a float (mantissa and binary
  exponent), a str, a list or a dict. A dict is its list of items.
\<close>

datatype yaml =
    YNull
  | YBool bool
  | YInt int
  | YFloat int int
  | YStr string
  | YSeq "yaml list"
  | YMap "(yaml \<times> yaml) list"

datatype errno = ENOENT | EEXIST | ENOTDIR | EISDIR | EACCES

datatype error = YAMLError | AttributeError | TypeError | ValueError | OSError errno

datatype outcome = Returned | Raised error

text \<open>
  \<^verbatim>\<open>d.get(key, default)\<close>. Only a dict has the method: on any other value the attribute
  lookup raises \<^verbatim>\<open>AttributeError\<close>.
\<close>

definition dict_get :: "yaml \<Rightarrow> string \<Rightarrow> yaml \<Rightarrow> error + yaml" where
  "dict_get d key dflt =
     (case d of
        YMap items \<Rightarrow> Inr (case map_of items (YStr key) of Some v \<Rightarrow> v | None \<Rightarrow> dflt)
      | _ \<Rightarrow> Inl AttributeError)"

subsection \<open>Printing values: \<^verbatim>\<open>str()\<close> as an f-string applies it\<close>

definition digit_char :: "nat \<Rightarrow> char" where
  "digit_char d = ''0123456789'' ! d"

fun nat_str :: "nat \<Rightarrow> string" where
  "nat_str n = (if n < 10 then [digit_char n] else nat_str (n div 10) @ [digit_char (n mod 10)])"

definition int_str :: "int \<Rightarrow> string" where
  "int_str i = (if i < 0 then CHR ''-'' # nat_str (nat (- i)) else nat_str (nat i))"

subsection \<open>Paths\<close>

text \<open>
  A path is the list of its components, as \<^verbatim>\<open>pathlib.PurePosixPath\<close> keeps them: a leading
  \<^verbatim>\<open>/\<close> is the first component of an absolute path, empty components and \<^verbatim>\<open>.\<close> are dropped.
  The empty list is the current directory. Components are names only: \<^verbatim>\<open>..\<close> and symbolic
  links are not resolved, a relative path is not identified with its absolute form, and
  the root \<^verbatim>\<open>//\<close> that POSIX allows is not told apart from \<^verbatim>\<open>/\<close>.
\<close>

type_synonym path = "string list"

fun split_slash :: "string \<Rightarrow> string list" where
  "split_slash [] = [[]]"
| "split_slash (c # cs) =
     (if c = CHR ''/'' then [] # split_slash cs
      else (case split_slash cs of [] \<Rightarrow> [[c]] | x # xs \<Rightarrow> (c # x) # xs))"

definition Path :: "string \<Rightarrow> path" where
  "Path s = (if take 1 s = ''/'' then [''/''] else [])
              @ filter (\<lambda>c. c \<noteq> [] \<and> c \<noteq> ''.'') (split_slash s)"

text \<open>\<^verbatim>\<open>Path(x)\<close> for a configuration value: anything but a str is a \<^verbatim>\<open>TypeError\<close>.\<close>

definition Path_of :: "yaml \<Rightarrow> error + path" where
  "Path_of v = (case v of YStr s \<Rightarrow> Inr (Path s) | _ \<Rightarrow> Inl TypeError)"

definition is_anchor :: "path \<Rightarrow> bool" where
  "is_anchor p = (p = [] \<or> p = [''/''])"

definition Path_parent :: "path \<Rightarrow> path" where
  "Path_parent p = (if is_anchor p then p else butlast p)"

subsection \<open>The world: file system, streams, the process-wide logger\<close>

datatype node = Dir | File string

text \<open>
  A sink as \<^verbatim>\<open>logger.add\<close> receives it: \<^verbatim>\<open>sys.stdout\<close>, \<^verbatim>\<open>sys.stderr\<close>, or any other object
  (here a configuration value; loguru opens a file for a str and refuses the rest).
\<close>

datatype target = Stdout | Stderr | Named yaml

text \<open>
  A format string, cut into its pieces: literal text, a record field with its minimum
  width (\<^verbatim>\<open>{level: <8}\<close> is the level, left-aligned in 8 columns), and colour markup tags.
  \<open>FTime\<close> carries the time pattern, \<open>FExtra k\<close> is \<^verbatim>\<open>{extra[k]}\<close>.
\<close>

datatype field = FTime string | FLevel | FName | FFunction | FLine | FMessage | FExtra string

datatype piece = Lit string | Fld field nat | Open_tag string | Close_tag string

record sink =
  target :: target
  format :: "piece list"
  level :: yaml
  colorize :: bool
  rotation :: "string option"
  retention :: "yaml option"
  compression :: "string option"

text \<open>
  A handler is a registered sink, with the id \<^verbatim>\<open>add\<close> gave it and the severity number
  \<^verbatim>\<open>add\<close> resolved its level to.
\<close>

record handler =
  h_id :: nat
  h_sink :: sink
  h_levelno :: nat

text \<open>
  The world. \<open>denied\<close> lists the paths the process may neither create nor open.
  \<open>handlers_count\<close> is loguru's counter of \<^verbatim>\<open>add\<close> calls, the next handler id.
\<close>

record world =
  nodes :: "path \<rightharpoonup> node"
  denied :: "path set"
  stdout :: "string list"
  stderr :: "string list"
  handlers :: "handler list"
  handlers_count :: nat
  levels :: "(string \<times> nat) list"

text \<open>What the libraries and the interpreter supply.\<close>

record runtime =
  yaml_safe_load :: "string \<Rightarrow> yaml option"
  py_repr :: "yaml \<Rightarrow> string"
  file_sink_check :: "string option \<Rightarrow> yaml option \<Rightarrow> error option"
  dunder_name :: string
  now :: "string \<Rightarrow> string"

text \<open>
  \<open>yaml_safe_load\<close> is PyYAML's parser on the text of a file, \<open>None\<close> when it raises
  \<^verbatim>\<open>YAMLError\<close>. \<open>py_repr\<close> is Python's printed form of a float, a list or a dict.
  \<open>file_sink_check\<close> is loguru's reading of the \<^verbatim>\<open>rotation\<close> string and the \<^verbatim>\<open>retention\<close>
  value when a file sink is built: the exception it raises, if any. \<open>dunder_name\<close> is
  the value of \<^verbatim>\<open>__name__\<close> in \<^verbatim>\<open>logger.py\<close>, fixed when the module is imported. \<open>now\<close> is
  the clock: the current time printed under a given pattern.
\<close>

definition py_format :: "runtime \<Rightarrow> yaml \<Rightarrow> string" where
  "py_format rt v =
     (case v of
        YNull \<Rightarrow> ''None''
      | YBool b \<Rightarrow> (if b then ''True'' else ''False'')
      | YInt i \<Rightarrow> int_str i
      | YStr s \<Rightarrow> s
      | _ \<Rightarrow> py_repr rt v)"

subsection \<open>File-system calls\<close>

definition Path_is_dir :: "world \<Rightarrow> path \<Rightarrow> bool" where
  "Path_is_dir w p = (is_anchor p \<or> nodes w p = Some Dir)"

definition Path_exists :: "world \<Rightarrow> path \<Rightarrow> bool" where
  "Path_exists w p = (is_anchor p \<or> nodes w p \<noteq> None)"

text \<open>\<^verbatim>\<open>os.mkdir\<close>: one directory, whose parent must be there.\<close>

definition os_mkdir :: "path \<Rightarrow> world \<Rightarrow> errno + world" where
  "os_mkdir p w =
     (if is_anchor p then Inl EEXIST
      else if \<not> Path_exists w (Path_parent p) then Inl ENOENT
      else if \<not> Path_is_dir w (Path_parent p) then Inl ENOTDIR
      else if Path_exists w p then Inl EEXIST
      else if p \<in> denied w then Inl EACCES
      else Inr (w\<lparr>nodes := (nodes w)(p \<mapsto> Dir)\<rparr>))"

text \<open>
  \<^verbatim>\<open>Path.mkdir(parents=False, exist_ok=True)\<close>: a missing parent is an error; any other
  failure is forgiven when the path is a directory already.
\<close>

definition mkdir_exist_ok :: "path \<Rightarrow> world \<Rightarrow> outcome \<times> world" where
  "mkdir_exist_ok p w =
     (case os_mkdir p w of
        Inr w' \<Rightarrow> (Returned, w')
      | Inl e \<Rightarrow>
          (if e = ENOENT then (Raised (OSError ENOENT), w)
           else if Path_is_dir w p then (Returned, w)
           else (Raised (OSError e), w)))"

text \<open>
  \<^verbatim>\<open>Path.mkdir(parents=True, exist_ok=True)\<close>, as pathlib writes it: try \<^verbatim>\<open>os.mkdir\<close>; on a
  missing parent make the parent the same way, then the directory itself; forgive any
  other failure when the path is a directory already.
\<close>

function Path_mkdir :: "path \<Rightarrow> world \<Rightarrow> outcome \<times> world" where
  "Path_mkdir p w =
     (case os_mkdir p w of
        Inr w' \<Rightarrow> (Returned, w')
      | Inl e \<Rightarrow>
          (if e = ENOENT then
             (if is_anchor p then (Raised (OSError ENOENT), w)
              else (case Path_mkdir (Path_parent p) w of
                      (Raised e', w') \<Rightarrow> (Raised e', w')
                    | (Returned, w') \<Rightarrow> mkdir_exist_ok p w'))
           else if Path_is_dir w p then (Returned, w)
           else (Raised (OSError e), w)))"
  by pat_completeness auto
termination
  by (relation "measure (\<lambda>(p, w). length p)") (auto simp: Path_parent_def is_anchor_def)

declare Path_mkdir.simps [simp del]

text \<open>
  \<^verbatim>\<open>open(p, 'r')\<close> and reading the whole file. A file holds text: bytes that do not decode
  are not modelled.
\<close>

definition open_read :: "world \<Rightarrow> path \<Rightarrow> errno + string" where
  "open_read w p =
     (if Path_is_dir w p then Inl EISDIR
      else (case nodes w p of
              None \<Rightarrow> Inl ENOENT
            | Some Dir \<Rightarrow> Inl EISDIR
            | Some (File text) \<Rightarrow> (if p \<in> denied w then Inl EACCES else Inr text)))"

text \<open>\<^verbatim>\<open>open(p, 'a')\<close>: the file is created empty when it is not there.\<close>

definition open_append :: "path \<Rightarrow> world \<Rightarrow> errno + world" where
  "open_append p w =
     (if Path_is_dir w p then Inl EISDIR
      else if \<not> Path_exists w (Path_parent p) then Inl ENOENT
      else if \<not> Path_is_dir w (Path_parent p) then Inl ENOTDIR
      else if p \<in> denied w then Inl EACCES
      else (case nodes w p of
              Some (File text) \<Rightarrow> Inr w
            | _ \<Rightarrow> Inr (w\<lparr>nodes := (nodes w)(p \<mapsto> File [])\<rparr>)))"

subsection \<open>loguru: handlers, records, rendering\<close>

text \<open>
  The level of a handler is a registered name, or a number that is not negative (a
  Python bool is an int); anything else is refused.
\<close>

definition resolve_level :: "world \<Rightarrow> yaml \<Rightarrow> error + nat" where
  "resolve_level w lv =
     (case lv of
        YStr s \<Rightarrow> (case map_of (levels w) s of Some n \<Rightarrow> Inr n | None \<Rightarrow> Inl ValueError)
      | YInt i \<Rightarrow> (if i < 0 then Inl ValueError else Inr (nat i))
      | YBool b \<Rightarrow> Inr (if b then 1 else 0)
      | _ \<Rightarrow> Inl TypeError)"

text \<open>\<^verbatim>\<open>logger.remove()\<close> with no argument stops and removes every handler.\<close>

definition logger_remove :: "world \<Rightarrow> world" where
  "logger_remove w = w\<lparr>handlers := []\<rparr>"

definition register :: "nat \<Rightarrow> sink \<Rightarrow> world \<Rightarrow> outcome \<times> world" where
  "register i s w =
     (case resolve_level w (level s) of
        Inl e \<Rightarrow> (Raised e, w)
      | Inr n \<Rightarrow>
          (Returned, w\<lparr>handlers := handlers w @ [\<lparr>h_id = i, h_sink = s, h_levelno = n\<rparr>]\<rparr>))"

text \<open>
  \<^verbatim>\<open>logger.add\<close>. The call takes the next handler id, whether it succeeds or not.
  A stream is registered once its level resolves. For a str loguru builds a
  file sink first: it reads rotation and retention, opens the file for appending (its own
  \<^verbatim>\<open>makedirs\<close> of the parent is not repeated here: \<^verbatim>\<open>setup_logging\<close> has made that directory
  on the line before), and only then resolves the level. The file name is taken as it
  is written.
\<close>

definition logger_add :: "runtime \<Rightarrow> sink \<Rightarrow> world \<Rightarrow> outcome \<times> world" where
  "logger_add rt s w =
     (let i = handlers_count w; w0 = w\<lparr>handlers_count := i + 1\<rparr> in
      case target s of
        Stdout \<Rightarrow> register i s w0
      | Stderr \<Rightarrow> register i s w0
      | Named (YStr f) \<Rightarrow>
          (case file_sink_check rt (rotation s) (retention s) of
             Some e \<Rightarrow> (Raised e, w0)
           | None \<Rightarrow>
               (case open_append (Path f) w0 of
                  Inl e \<Rightarrow> (Raised (OSError e), w0)
                | Inr w' \<Rightarrow> register i s w'))
      | Named _ \<Rightarrow> (Raised TypeError, w0))"

text \<open>
  A handle on the logger: the \<^verbatim>\<open>extra\<close> dict that \<^verbatim>\<open>bind\<close> extends. The sinks are not part of
  it: every handle shares the handlers of the world.
\<close>

record handle =
  extra :: "string \<rightharpoonup> string"

definition logger :: handle where
  "logger = \<lparr>extra = Map.empty\<rparr>"

definition logger_bind :: "handle \<Rightarrow> string \<Rightarrow> string \<Rightarrow> handle" where
  "logger_bind h key v = h\<lparr>extra := (extra h)(key \<mapsto> v)\<rparr>"

text \<open>
  The place a logging call is made from: loguru reads the \<^verbatim>\<open>__name__\<close> of the calling
  module, the function and the line off the caller's stack frame.
\<close>

record frame =
  f_name :: string
  f_function :: string
  f_line :: nat

record log_record =
  rec_time :: "string \<Rightarrow> string"
  rec_level :: string
  rec_levelno :: nat
  rec_name :: string
  rec_function :: string
  rec_line :: nat
  rec_message :: string
  rec_extra :: "string \<rightharpoonup> string"

definition make_record :: "runtime \<Rightarrow> handle \<Rightarrow> frame \<Rightarrow> string \<Rightarrow> nat \<Rightarrow> string \<Rightarrow> log_record" where
  "make_record rt h fr lvl no msg =
     \<lparr>rec_time = now rt, rec_level = lvl, rec_levelno = no,
      rec_name = f_name fr, rec_function = f_function fr, rec_line = f_line fr,
      rec_message = msg, rec_extra = extra h\<rparr>"

fun render_field :: "log_record \<Rightarrow> field \<Rightarrow> string" where
  "render_field r (FTime pattern) = rec_time r pattern"
| "render_field r FLevel = rec_level r"
| "render_field r FName = rec_name r"
| "render_field r FFunction = rec_function r"
| "render_field r FLine = nat_str (rec_line r)"
| "render_field r FMessage = rec_message r"
| "render_field r (FExtra k) = (case rec_extra r k of Some v \<Rightarrow> v | None \<Rightarrow> [])"

definition pad_right :: "nat \<Rightarrow> string \<Rightarrow> string" where
  "pad_right width s = s @ replicate (width - length s) CHR '' ''"

text \<open>
  The text of a piece. Colour tags print nothing here: the escape codes that
  \<^verbatim>\<open>colorize=True\<close> puts around a tagged field are terminal decoration, not text.
\<close>

fun render_piece :: "log_record \<Rightarrow> piece \<Rightarrow> string" where
  "render_piece r (Lit s) = s"
| "render_piece r (Fld f width) = pad_right width (render_field r f)"
| "render_piece r (Open_tag t) = []"
| "render_piece r (Close_tag t) = []"

definition render :: "piece list \<Rightarrow> log_record \<Rightarrow> string" where
  "render fmt r = concat (map (render_piece r) fmt) @ [CHR 0x0A]"

definition write_sink :: "sink \<Rightarrow> string \<Rightarrow> world \<Rightarrow> world" where
  "write_sink s text w =
     (case target s of
        Stdout \<Rightarrow> w\<lparr>stdout := stdout w @ [text]\<rparr>
      | Stderr \<Rightarrow> w\<lparr>stderr := stderr w @ [text]\<rparr>
      | Named (YStr f) \<Rightarrow>
          (case nodes w (Path f) of
             Some (File old) \<Rightarrow> w\<lparr>nodes := (nodes w)(Path f \<mapsto> File (old @ text))\<rparr>
           | _ \<Rightarrow> w)
      | Named _ \<Rightarrow> w)"

text \<open>
  A record goes to every handler whose level it reaches, in the order of registration.
  Rotation, retention and compression act inside loguru when a file grows; they are
  part of the sink's configuration and are not simulated.
\<close>

fun emit :: "handler list \<Rightarrow> log_record \<Rightarrow> world \<Rightarrow> world" where
  "emit [] r w = w"
| "emit (h # hs) r w =
     emit hs r
       (if h_levelno h \<le> rec_levelno r
        then write_sink (h_sink h) (render (format (h_sink h)) r) w else w)"

text \<open>\<^verbatim>\<open>handle.info(message)\<close>, called from the place \<open>fr\<close>. INFO has severity 20.\<close>

definition logger_info :: "runtime \<Rightarrow> handle \<Rightarrow> frame \<Rightarrow> string \<Rightarrow> world \<Rightarrow> world" where
  "logger_info rt h fr msg w = emit (handlers w) (make_record rt h fr ''INFO'' 20 msg) w"

subsection \<open>\<^verbatim>\<open>setup_logging\<close>\<close>

record settings =
  log_level :: yaml
  log_file :: yaml
  max_size_mb :: yaml
  backup_count :: yaml

text \<open>Lines 12 to 18: the \<^verbatim>\<open>logging\<close> section of the configuration file, or an empty dict.\<close>

definition load_log_config :: "runtime \<Rightarrow> string \<Rightarrow> world \<Rightarrow> error + yaml" where
  "load_log_config rt config_path w =
     (let config_file = Path config_path in
      if Path_exists w config_file then
        (case open_read w config_file of
           Inl e \<Rightarrow> Inl (OSError e)
         | Inr f \<Rightarrow>
             (case yaml_safe_load rt f of
                None \<Rightarrow> Inl YAMLError
              | Some config \<Rightarrow> dict_get config ''logging'' (YMap [])))
      else Inr (YMap []))"

text \<open>Lines 21 to 24: the four settings, each with its default.\<close>

definition read_settings :: "yaml \<Rightarrow> error + settings" where
  "read_settings log_config =
     (case dict_get log_config ''level'' (YStr ''INFO'') of Inl e \<Rightarrow> Inl e | Inr lv \<Rightarrow>
     (case dict_get log_config ''file'' (YStr ''logs/bot.log'') of Inl e \<Rightarrow> Inl e | Inr fl \<Rightarrow>
     (case dict_get log_config ''max_size_mb'' (YInt 10) of Inl e \<Rightarrow> Inl e | Inr sz \<Rightarrow>
     (case dict_get log_config ''backup_count'' (YInt 5) of Inl e \<Rightarrow> Inl e | Inr bc \<Rightarrow>
        Inr \<lparr>log_level = lv, log_file = fl, max_size_mb = sz, backup_count = bc\<rparr>))))"

definition settings_of :: "runtime \<Rightarrow> string \<Rightarrow> world \<Rightarrow> error + settings" where
  "settings_of rt config_path w =
     (case load_log_config rt config_path w of
        Inl e \<Rightarrow> Inl e
      | Inr log_config \<Rightarrow> read_settings log_config)"

text \<open>The two sinks, as lines 30 to 35 and 42 to 49 pass them to \<^verbatim>\<open>logger.add\<close>.\<close>

definition console_format :: "piece list" where
  "console_format =
     [Open_tag ''green'', Fld (FTime ''YYYY-MM-DD HH:mm:ss'') 0, Close_tag ''green'',
      Lit '' | '', Open_tag ''level'', Fld FLevel 8, Close_tag ''level'',
      Lit '' | '', Open_tag ''cyan'', Fld FName 0, Close_tag ''cyan'',
      Lit '':'', Open_tag ''cyan'', Fld FFunction 0, Close_tag ''cyan'',
      Lit '':'', Open_tag ''cyan'', Fld FLine 0, Close_tag ''cyan'',
      Lit '' - '', Open_tag ''level'', Fld FMessage 0, Close_tag ''level'']"

definition file_format :: "piece list" where
  "file_format =
     [Fld (FTime ''YYYY-MM-DD HH:mm:ss'') 0, Lit '' | '', Fld FLevel 8, Lit '' | '',
      Fld FName 0, Lit '':'', Fld FFunction 0, Lit '':'', Fld FLine 0,
      Lit '' - '', Fld FMessage 0]"

definition console_sink :: "settings \<Rightarrow> sink" where
  "console_sink s =
     \<lparr>target = Stdout, format = console_format, level = log_level s, colorize = True,
      rotation = None, retention = None, compression = None\<rparr>"

definition file_sink :: "runtime \<Rightarrow> settings \<Rightarrow> sink" where
  "file_sink rt s =
     \<lparr>target = Named (log_file s), format = file_format, level = log_level s,
      colorize = False,
      rotation = Some (py_format rt (max_size_mb s) @ '' MB''),
      retention = Some (backup_count s),
      compression = Some ''zip''\<rparr>"

text \<open>Sequencing: the next statement runs in the world the last one left, unless it raised.\<close>

definition and_then :: "outcome \<times> world \<Rightarrow> (world \<Rightarrow> outcome \<times> world) \<Rightarrow> outcome \<times> world" where
  "and_then r k = (case r of (Returned, w) \<Rightarrow> k w | (Raised e, w) \<Rightarrow> (Raised e, w))"

text \<open>Line 51 is a call made in \<^verbatim>\<open>setup_logging\<close> of this module.\<close>

definition line_51 :: "runtime \<Rightarrow> frame" where
  "line_51 rt = \<lparr>f_name = dunder_name rt, f_function = ''setup_logging'', f_line = 51\<rparr>"

text \<open>
  Lines 26 to 52, in the order of the source. The function returns the global \<^verbatim>\<open>logger\<close>;
  the model returns the world that logger lives in.
\<close>

definition configure :: "runtime \<Rightarrow> settings \<Rightarrow> world \<Rightarrow> outcome \<times> world" where
  "configure rt s w =
     and_then (logger_add rt (console_sink s) (logger_remove w)) (\<lambda>w1.
       (case Path_of (log_file s) of
          Inl e \<Rightarrow> (Raised e, w1)
        | Inr log_path \<Rightarrow>
            and_then (Path_mkdir (Path_parent log_path) w1) (\<lambda>w2.
            and_then (logger_add rt (file_sink rt s) w2) (\<lambda>w3.
              (Returned,
               logger_info rt logger (line_51 rt)
                 (''Logging initialized: level='' @ py_format rt (log_level s)
                    @ '', file='' @ py_format rt (log_file s)) w3)))))"

definition setup_logging :: "runtime \<Rightarrow> string \<Rightarrow> world \<Rightarrow> outcome \<times> world" where
  "setup_logging rt config_path w =
     (case settings_of rt config_path w of
        Inl e \<Rightarrow> (Raised e, w)
      | Inr s \<Rightarrow> configure rt s w)"

subsection \<open>\<^verbatim>\<open>get_logger\<close>\<close>

text \<open>
  The default of \<^verbatim>\<open>name\<close> is the expression \<^verbatim>\<open>__name__\<close>, which Python evaluates once, when
  the \<^verbatim>\<open>def\<close> statement runs in \<^verbatim>\<open>logger.py\<close>. The function is not told who calls it.
\<close>

definition get_logger :: "runtime \<Rightarrow> string option \<Rightarrow> handle" where
  "get_logger rt name =
     logger_bind logger ''name'' (case name of None \<Rightarrow> dunder_name rt | Some n \<Rightarrow> n)"

subsection \<open>A concrete world to run the functions in\<close>

text \<open>
  loguru starts with seven levels and one handler, on \<^verbatim>\<open>sys.stderr\<close> at DEBUG. The example
  parser knows four documents; every other text is malformed for it.
\<close>

definition builtin_levels :: "(string \<times> nat) list" where
  "builtin_levels =
     [(''TRACE'', 5), (''DEBUG'', 10), (''INFO'', 20), (''SUCCESS'', 25),
      (''WARNING'', 30), (''ERROR'', 40), (''CRITICAL'', 50)]"

definition default_sink :: sink where
  "default_sink =
     \<lparr>target = Stderr, format = console_format, level = YStr ''DEBUG'', colorize = True,
      rotation = None, retention = None, compression = None\<rparr>"

definition fresh_world :: world where
  "fresh_world =
     \<lparr>nodes = Map.empty, denied = {}, stdout = [], stderr = [],
      handlers = [\<lparr>h_id = 0, h_sink = default_sink, h_levelno = 10\<rparr>], handlers_count = 1,
      levels = builtin_levels\<rparr>"

definition example_parser :: "string \<Rightarrow> yaml option" where
  "example_parser text =
     (if text = ''logging: {level: DEBUG, file: var/log/app.log}'' then
        Some (YMap [(YStr ''logging'',
                YMap [(YStr ''level'', YStr ''DEBUG''), (YStr ''file'', YStr ''var/log/app.log'')])])
      else if text = ''port: 8080'' then Some (YMap [(YStr ''port'', YInt 8080)])
      else if text = ''- a'' then Some (YSeq [YStr ''a''])
      else if text = [] then Some YNull
      else None)"

definition example_runtime :: runtime where
  "example_runtime =
     \<lparr>yaml_safe_load = example_parser, py_repr = (\<lambda>v. ''?''),
      file_sink_check = (\<lambda>rot ret. None), dunder_name = ''src.utils.logger'',
      now = (\<lambda>pattern. ''2024-01-01 12:00:00'')\<rparr>"

definition with_file :: "string \<Rightarrow> string \<Rightarrow> world \<Rightarrow> world" where
  "with_file name text w = w\<lparr>nodes := (nodes w)(Path name \<mapsto> File text)\<rparr>"

subsection \<open>Vocabulary of the statements\<close>

text \<open>What is registered, ids aside: the sinks with their resolved levels, in order.\<close>

definition sinks_of :: "world \<Rightarrow> (sink \<times> nat) list" where
  "sinks_of w = map (\<lambda>h. (h_sink h, h_levelno h)) (handlers w)"

text \<open>loguru never reuses an id: every handler's id is below the counter.\<close>

definition ids_fresh :: "world \<Rightarrow> bool" where
  "ids_fresh w = list_all (\<lambda>h. h_id h < handlers_count w) (handlers w)"

text \<open>A parsed document that is a dict.\<close>

definition is_mapping :: "yaml \<Rightarrow> bool" where
  "is_mapping v = (case v of YMap items \<Rightarrow> True | _ \<Rightarrow> False)"

subsection \<open>Vocabulary of the proofs\<close>

text \<open>
  Two worlds with the same logger and streams: they differ at most on disk.
\<close>

definition same_logger :: "world \<Rightarrow> world \<Rightarrow> bool" where
  "same_logger w w' =
     (denied w' = denied w \<and> stdout w' = stdout w \<and> stderr w' = stderr w
      \<and> handlers w' = handlers w \<and> handlers_count w' = handlers_count w
      \<and> levels w' = levels w)"

text \<open>The second world has every node of the first, and the same logger.\<close>

definition grows :: "world \<Rightarrow> world \<Rightarrow> bool" where
  "grows w w' = (same_logger w w' \<and> (\<forall>q x. nodes w q = Some x \<longrightarrow> nodes w' q = Some x))"

text \<open>A directory that is there, under a parent that is there.\<close>

definition dir_ready :: "world \<Rightarrow> path \<Rightarrow> bool" where
  "dir_ready w p = (Path_is_dir w p \<and> Path_exists w (Path_parent p))"

text \<open>A regular file is at the path.\<close>

definition is_file :: "world \<Rightarrow> path \<Rightarrow> bool" where
  "is_file w p = (case nodes w p of Some (File text) \<Rightarrow> True | _ \<Rightarrow> False)"

text \<open>
  The world after lines 27 to 35, when the level resolved to \<open>n\<close>: the old handlers are
  gone, the console handler is the only one, and one id is used up.
\<close>

definition after_console :: "settings \<Rightarrow> nat \<Rightarrow> world \<Rightarrow> world" where
  "after_console s n w =
     w\<lparr>handlers := [\<lparr>h_id = handlers_count w, h_sink = console_sink s, h_levelno = n\<rparr>],
       handlers_count := Suc (handlers_count w)\<rparr>"

section \<open>Properties of the library calls\<close>

subsection \<open>Making directories\<close>

lemma and_then_Returned [simp]: "and_then (Returned, w) k = k w"
  by (simp add: and_then_def)

lemma and_then_Raised [simp]: "and_then (Raised e, w) k = (Raised e, w)"
  by (simp add: and_then_def)

lemma os_mkdir_Inr:
  "os_mkdir p w = Inr w' \<Longrightarrow>
     w' = w\<lparr>nodes := (nodes w)(p \<mapsto> Dir)\<rparr> \<and> \<not> is_anchor p \<and> nodes w p = None
       \<and> Path_is_dir w (Path_parent p)"
  by (auto simp: os_mkdir_def Path_exists_def split: if_splits)

lemma os_mkdir_Inl_parent:
  "os_mkdir p w = Inl e \<Longrightarrow> e \<noteq> ENOENT \<Longrightarrow> Path_exists w (Path_parent p)"
  by (auto simp: os_mkdir_def Path_exists_def Path_parent_def split: if_splits)

lemma grows_refl [simp]: "grows w w"
  by (simp add: grows_def same_logger_def)

lemma grows_trans: "grows w w1 \<Longrightarrow> grows w1 w2 \<Longrightarrow> grows w w2"
  by (auto simp: grows_def same_logger_def)

lemma os_mkdir_grows: "os_mkdir p w = Inr w' \<Longrightarrow> grows w w'"
  by (auto simp: grows_def same_logger_def dest!: os_mkdir_Inr)

lemma mkdir_exist_ok_grows: "mkdir_exist_ok p w = (out, w') \<Longrightarrow> grows w w'"
  by (auto simp: mkdir_exist_ok_def split: sum.splits if_splits dest: os_mkdir_grows)

lemma Path_mkdir_grows: "Path_mkdir p w = (out, w') \<Longrightarrow> grows w w'"
proof (induction p w arbitrary: out w' rule: Path_mkdir.induct)
  case (1 p w)
  show ?case
  proof (cases "os_mkdir p w")
    case (Inr w1)
    with "1.prems" show ?thesis
      by (subst (asm) Path_mkdir.simps) (auto dest: os_mkdir_grows)
  next
    case (Inl e)
    show ?thesis
    proof (cases "e = ENOENT \<and> \<not> is_anchor p")
      case False
      with Inl "1.prems" show ?thesis
        by (subst (asm) Path_mkdir.simps) (auto split: if_splits)
    next
      case True
      obtain o1 w1 where r: "Path_mkdir (Path_parent p) w = (o1, w1)"
        by (cases "Path_mkdir (Path_parent p) w")
      from "1.IH" [OF Inl _ _ r] True have f1: "grows w w1" by simp
      show ?thesis
      proof (cases o1)
        case Returned
        with Inl True r "1.prems" have "mkdir_exist_ok p w1 = (out, w')"
          by (subst (asm) Path_mkdir.simps) simp
        from mkdir_exist_ok_grows [OF this] f1 show ?thesis by (rule grows_trans [rotated])
      next
        case (Raised e')
        with Inl True r "1.prems" have "w' = w1"
          by (subst (asm) Path_mkdir.simps) simp
        with f1 show ?thesis by simp
      qed
    qed
  qed
qed

text \<open>What \<^verbatim>\<open>mkdir\<close> promises when it returns, and that it then has nothing left to do.\<close>

lemma os_mkdir_ready: "os_mkdir p w = Inr w' \<Longrightarrow> dir_ready w' p"
  by (auto simp: dir_ready_def Path_is_dir_def Path_exists_def dest!: os_mkdir_Inr)

lemma mkdir_exist_ok_ready: "mkdir_exist_ok p w = (Returned, w') \<Longrightarrow> dir_ready w' p"
  by (auto simp: mkdir_exist_ok_def dir_ready_def split: sum.splits if_splits
      dest: os_mkdir_ready os_mkdir_Inl_parent)

lemma Path_mkdir_ready: "Path_mkdir p w = (Returned, w') \<Longrightarrow> dir_ready w' p"
proof -
  assume a: "Path_mkdir p w = (Returned, w')"
  show ?thesis
  proof (cases "os_mkdir p w")
    case (Inr w1)
    with a have "w' = w1" by (subst (asm) Path_mkdir.simps) simp
    with Inr show ?thesis by (simp add: os_mkdir_ready)
  next
    case (Inl e)
    show ?thesis
    proof (cases "e = ENOENT")
      case True
      obtain o1 w1 where r: "Path_mkdir (Path_parent p) w = (o1, w1)"
        by (cases "Path_mkdir (Path_parent p) w")
      from a Inl True r have "mkdir_exist_ok p w1 = (Returned, w')"
        by (subst (asm) Path_mkdir.simps) (simp split: if_splits outcome.splits)
      then show ?thesis by (rule mkdir_exist_ok_ready)
    next
      case False
      with a Inl have "Path_is_dir w p \<and> w' = w"
        by (subst (asm) Path_mkdir.simps) (simp split: if_splits)
      with os_mkdir_Inl_parent [OF Inl False] show ?thesis by (simp add: dir_ready_def)
    qed
  qed
qed

lemma Path_mkdir_again: "dir_ready w p \<Longrightarrow> Path_mkdir p w = (Returned, w)"
proof -
  assume a: "dir_ready w p"
  then have "\<exists>e. os_mkdir p w = Inl e \<and> e \<noteq> ENOENT"
    by (cases "is_anchor p")
       (auto simp: dir_ready_def os_mkdir_def Path_is_dir_def Path_exists_def Path_parent_def)
  then obtain e where "os_mkdir p w = Inl e" "e \<noteq> ENOENT" by blast
  with a show ?thesis by (subst Path_mkdir.simps) (simp add: dir_ready_def)
qed



text \<open>It touches no path but the directory and those above it.\<close>

lemma os_mkdir_nodes: "os_mkdir p w = Inr w' \<Longrightarrow> q \<noteq> p \<Longrightarrow> nodes w' q = nodes w q"
  by (auto dest!: os_mkdir_Inr)

lemma mkdir_exist_ok_nodes:
  "mkdir_exist_ok p w = (out, w') \<Longrightarrow> q \<noteq> p \<Longrightarrow> nodes w' q = nodes w q"
  by (auto simp: mkdir_exist_ok_def split: sum.splits if_splits dest: os_mkdir_nodes)

lemma prefix_Path_parent: "prefix q (Path_parent p) \<Longrightarrow> prefix q p"
proof (cases "is_anchor p")
  case True
  assume "prefix q (Path_parent p)"
  with True show ?thesis by (simp add: Path_parent_def)
next
  case False
  assume "prefix q (Path_parent p)"
  with False have "prefix q (butlast p)" by (simp add: Path_parent_def)
  then show ?thesis by (metis prefix_order.trans prefixeq_butlast)
qed

lemma Path_mkdir_nodes:
  "Path_mkdir p w = (out, w') \<Longrightarrow> \<not> prefix q p \<Longrightarrow> nodes w' q = nodes w q"
proof (induction p w arbitrary: out w' rule: Path_mkdir.induct)
  case (1 p w)
  from "1.prems"(2) have qp: "q \<noteq> p" by auto
  show ?case
  proof (cases "os_mkdir p w")
    case (Inr w1)
    with "1.prems" qp show ?thesis
      by (subst (asm) Path_mkdir.simps) (auto dest: os_mkdir_nodes)
  next
    case (Inl e)
    show ?thesis
    proof (cases "e = ENOENT \<and> \<not> is_anchor p")
      case False
      with Inl "1.prems" show ?thesis
        by (subst (asm) Path_mkdir.simps) (auto split: if_splits)
    next
      case True
      obtain o1 w1 where r: "Path_mkdir (Path_parent p) w = (o1, w1)"
        by (cases "Path_mkdir (Path_parent p) w")
      from "1.prems"(2) have "\<not> prefix q (Path_parent p)"
        using prefix_Path_parent by blast
      with "1.IH" [OF Inl _ _ r] True have f1: "nodes w1 q = nodes w q" by simp
      show ?thesis
      proof (cases o1)
        case Returned
        with Inl True r "1.prems" have "mkdir_exist_ok p w1 = (out, w')"
          by (subst (asm) Path_mkdir.simps) simp
        from mkdir_exist_ok_nodes [OF this qp] f1 show ?thesis by simp
      next
        case (Raised e')
        with Inl True r "1.prems" have "w' = w1"
          by (subst (asm) Path_mkdir.simps) simp
        with f1 show ?thesis by simp
      qed
    qed
  qed
qed

subsection \<open>Writing and opening files\<close>

lemma resolve_level_levels: "levels w' = levels w \<Longrightarrow> resolve_level w' lv = resolve_level w lv"
  by (simp add: resolve_level_def split: yaml.splits)

lemma resolve_level_upd [simp]:
  "resolve_level (w\<lparr>handlers := hs\<rparr>) lv = resolve_level w lv"
  "resolve_level (w\<lparr>handlers_count := k\<rparr>) lv = resolve_level w lv"
  "resolve_level (w\<lparr>nodes := m\<rparr>) lv = resolve_level w lv"
  by (simp_all add: resolve_level_def split: yaml.splits)

lemma resolve_level_str: "resolve_level w (YStr s) = Inr n \<longleftrightarrow> map_of (levels w) s = Some n"
  by (auto simp: resolve_level_def split: option.splits)

lemma write_sink_fields [simp]:
  "handlers (write_sink s t w) = handlers w"
  "handlers_count (write_sink s t w) = handlers_count w"
  "levels (write_sink s t w) = levels w"
  "denied (write_sink s t w) = denied w"
  by (auto simp: write_sink_def split: target.splits yaml.splits option.splits node.splits)

lemma write_sink_is_dir [simp]: "Path_is_dir (write_sink s t w) p = Path_is_dir w p"
  by (auto simp: write_sink_def Path_is_dir_def split: target.splits yaml.splits option.splits node.splits)

lemma write_sink_exists [simp]: "Path_exists (write_sink s t w) p = Path_exists w p"
  by (auto simp: write_sink_def Path_exists_def split: target.splits yaml.splits option.splits node.splits)

lemma write_sink_is_file [simp]: "is_file (write_sink s t w) p = is_file w p"
  by (auto simp: write_sink_def is_file_def split: target.splits yaml.splits option.splits node.splits)

lemma write_sink_stdout:
  "stdout (write_sink s t w) = (if target s = Stdout then stdout w @ [t] else stdout w)"
  by (auto simp: write_sink_def split: target.splits yaml.splits option.splits node.splits)

lemma write_sink_nodes:
  "target s = Stdout \<or> target s = Named (YStr f) \<and> Path f \<noteq> q \<Longrightarrow>
   nodes (write_sink s t w) q = nodes w q"
  by (auto simp: write_sink_def split: option.splits node.splits)

lemma emit_fields [simp]:
  "handlers (emit hs r w) = handlers w"
  "handlers_count (emit hs r w) = handlers_count w"
  "levels (emit hs r w) = levels w"
  "denied (emit hs r w) = denied w"
  by (induction hs arbitrary: w; simp)+

lemma emit_is_dir [simp]: "Path_is_dir (emit hs r w) p = Path_is_dir w p"
  by (induction hs arbitrary: w) simp_all

lemma emit_exists [simp]: "Path_exists (emit hs r w) p = Path_exists w p"
  by (induction hs arbitrary: w) simp_all

lemma emit_is_file [simp]: "is_file (emit hs r w) p = is_file w p"
  by (induction hs arbitrary: w) simp_all

lemma logger_info_fields [simp]:
  "handlers (logger_info rt h fr msg w) = handlers w"
  "handlers_count (logger_info rt h fr msg w) = handlers_count w"
  "levels (logger_info rt h fr msg w) = levels w"
  "denied (logger_info rt h fr msg w) = denied w"
  "Path_is_dir (logger_info rt h fr msg w) p = Path_is_dir w p"
  "Path_exists (logger_info rt h fr msg w) p = Path_exists w p"
  "is_file (logger_info rt h fr msg w) p = is_file w p"
  by (simp_all add: logger_info_def)

lemma Path_is_dir_upd [simp]:
  "Path_is_dir (w\<lparr>handlers_count := k\<rparr>) q = Path_is_dir w q"
  "Path_is_dir (w\<lparr>handlers := hs\<rparr>) q = Path_is_dir w q"
  by (simp_all add: Path_is_dir_def)

lemma Path_exists_upd [simp]:
  "Path_exists (w\<lparr>handlers_count := k\<rparr>) q = Path_exists w q"
  "Path_exists (w\<lparr>handlers := hs\<rparr>) q = Path_exists w q"
  by (simp_all add: Path_exists_def)

lemma dir_ready_count [simp]: "dir_ready (w\<lparr>handlers_count := k\<rparr>) q = dir_ready w q"
  by (simp add: dir_ready_def Path_is_dir_def Path_exists_def)

lemma dir_ready_handlers [simp]: "dir_ready (w\<lparr>handlers := hs\<rparr>) q = dir_ready w q"
  by (simp add: dir_ready_def Path_is_dir_def Path_exists_def)

lemma dir_ready_logger_info [simp]: "dir_ready (logger_info rt h fr msg w) q = dir_ready w q"
  by (simp add: dir_ready_def)

lemma is_file_handlers [simp]: "is_file (w\<lparr>handlers := hs\<rparr>) q = is_file w q"
  by (simp add: is_file_def)

lemma is_file_count [simp]: "is_file (w\<lparr>handlers_count := k\<rparr>) q = is_file w q"
  by (simp add: is_file_def)

lemma open_append_Inr:
  "open_append p w = Inr w' \<Longrightarrow>
     same_logger w w' \<and> is_file w' p \<and> p \<notin> denied w \<and> \<not> is_anchor p
     \<and> (\<forall>q. Path_is_dir w q \<longrightarrow> Path_is_dir w' q)
     \<and> (\<forall>q. Path_exists w q \<longrightarrow> Path_exists w' q)"
  by (auto simp: open_append_def same_logger_def is_file_def Path_is_dir_def Path_exists_def
      split: if_splits option.splits node.splits)

lemma open_append_again:
  "is_file w p \<Longrightarrow> p \<notin> denied w \<Longrightarrow> dir_ready w (Path_parent p) \<Longrightarrow> \<not> is_anchor p
     \<Longrightarrow> open_append p w = Inr w"
  by (auto simp: open_append_def is_file_def dir_ready_def Path_is_dir_def Path_exists_def
      split: option.splits node.splits)


lemma open_append_nodes: "open_append p w = Inr w' \<Longrightarrow> q \<noteq> p \<Longrightarrow> nodes w' q = nodes w q"
  by (auto simp: open_append_def split: if_splits option.splits node.splits)

lemma open_read_exists: "open_read w p = Inr text \<Longrightarrow> Path_exists w p"
  by (auto simp: open_read_def Path_exists_def split: if_splits option.splits node.splits)

lemma open_read_cong:
  "nodes w' p = nodes w p \<Longrightarrow> denied w' = denied w \<Longrightarrow> open_read w' p = open_read w p"
  by (simp add: open_read_def Path_is_dir_def split: option.splits node.splits)

lemma Path_exists_cong: "nodes w' p = nodes w p \<Longrightarrow> Path_exists w' p = Path_exists w p"
  by (simp add: Path_exists_def)

subsection \<open>Adding the two sinks\<close>

lemma console_sink_sel [simp]:
  "target (console_sink s) = Stdout" "level (console_sink s) = log_level s"
  "format (console_sink s) = console_format"
  by (simp_all add: console_sink_def)

lemma file_sink_sel [simp]:
  "target (file_sink rt s) = Named (log_file s)" "level (file_sink rt s) = log_level s"
  "format (file_sink rt s) = file_format"
  "rotation (file_sink rt s) = Some (py_format rt (max_size_mb s) @ '' MB'')"
  "retention (file_sink rt s) = Some (backup_count s)"
  "compression (file_sink rt s) = Some ''zip''"
  by (simp_all add: file_sink_def)

lemma after_console_fields [simp]:
  "levels (after_console s n w) = levels w"
  "denied (after_console s n w) = denied w"
  "dir_ready (after_console s n w) q = dir_ready w q"
  "is_file (after_console s n w) q = is_file w q"
  "handlers_count (after_console s n w) = Suc (handlers_count w)"
  "handlers (after_console s n w) =
     [\<lparr>h_id = handlers_count w, h_sink = console_sink s, h_levelno = n\<rparr>]"
  by (simp_all add: after_console_def)

lemma add_console:
  "logger_add rt (console_sink s) (logger_remove w) =
     (case resolve_level w (log_level s) of
        Inl e \<Rightarrow> (Raised e, w\<lparr>handlers := [], handlers_count := Suc (handlers_count w)\<rparr>)
      | Inr n \<Rightarrow> (Returned, after_console s n w))"
  by (simp add: logger_add_def register_def logger_remove_def after_console_def Let_def
      split: sum.splits)

lemma add_console_Returned:
  "logger_add rt (console_sink s) (logger_remove w) = (Returned, w1) \<longleftrightarrow>
     (\<exists>n. resolve_level w (log_level s) = Inr n \<and> w1 = after_console s n w)"
  by (auto simp: add_console split: sum.splits)

lemma add_file:
  "log_file s = YStr f \<Longrightarrow>
   logger_add rt (file_sink rt s) w =
     (case file_sink_check rt (Some (py_format rt (max_size_mb s) @ '' MB'')) (Some (backup_count s)) of
        Some e \<Rightarrow> (Raised e, w\<lparr>handlers_count := Suc (handlers_count w)\<rparr>)
      | None \<Rightarrow>
          (case open_append (Path f) (w\<lparr>handlers_count := Suc (handlers_count w)\<rparr>) of
             Inl e \<Rightarrow> (Raised (OSError e), w\<lparr>handlers_count := Suc (handlers_count w)\<rparr>)
           | Inr w' \<Rightarrow> register (handlers_count w) (file_sink rt s) w'))"
  by (simp add: logger_add_def Let_def split: option.splits sum.splits)


lemma logger_add_Raised_handlers:
  "logger_add rt x w = (Raised e, w') \<Longrightarrow> handlers w' = handlers w"
  by (auto simp: logger_add_def register_def Let_def same_logger_def
      split: target.splits yaml.splits option.splits sum.splits dest!: open_append_Inr)

lemma logger_add_count: "handlers_count (snd (logger_add rt x w)) = Suc (handlers_count w)"
  by (auto simp: logger_add_def register_def Let_def same_logger_def
      split: target.splits yaml.splits option.splits sum.splits dest!: open_append_Inr)

lemma logger_add_handlers:
  "handlers (snd (logger_add rt x w)) = handlers w
   \<or> (\<exists>n. handlers (snd (logger_add rt x w))
            = handlers w @ [\<lparr>h_id = handlers_count w, h_sink = x, h_levelno = n\<rparr>])"
  by (auto simp: logger_add_def register_def Let_def same_logger_def
      split: target.splits yaml.splits option.splits sum.splits dest!: open_append_Inr)

section \<open>The shape of a call\<close>

subsection \<open>Reading the settings\<close>

lemma dict_get_not_mapping: "\<not> is_mapping v \<Longrightarrow> dict_get v key dflt = Inl AttributeError"
  by (cases v) (simp_all add: dict_get_def is_mapping_def)

lemma py_format_10: "py_format rt (YInt 10) = ''10''"
  by (simp add: py_format_def int_str_def digit_char_def)

lemma settings_of_missing:
  "\<not> Path_exists w (Path cp) \<Longrightarrow>
   settings_of rt cp w = read_settings (YMap [])"
  by (simp add: settings_of_def load_log_config_def)

lemma settings_of_no_section:
  "open_read w (Path cp) = Inr text \<Longrightarrow> yaml_safe_load rt text = Some (YMap items) \<Longrightarrow>
   map_of items (YStr ''logging'') = None \<Longrightarrow>
   settings_of rt cp w = read_settings (YMap [])"
  by (simp add: settings_of_def load_log_config_def open_read_exists dict_get_def)

lemma read_settings_empty:
  "read_settings (YMap []) =
     Inr \<lparr>log_level = YStr ''INFO'', log_file = YStr ''logs/bot.log'',
          max_size_mb = YInt 10, backup_count = YInt 5\<rparr>"
  by (simp add: read_settings_def dict_get_def)

lemma settings_of_cong:
  "nodes w' (Path cp) = nodes w (Path cp) \<Longrightarrow> denied w' = denied w \<Longrightarrow>
   settings_of rt cp w' = settings_of rt cp w"
proof -
  assume a: "nodes w' (Path cp) = nodes w (Path cp)" "denied w' = denied w"
  from a have e1: "open_read w' (Path cp) = open_read w (Path cp)" by (rule open_read_cong)
  from a(1) have e2: "Path_exists w' (Path cp) = Path_exists w (Path cp)"
    by (rule Path_exists_cong)
  show ?thesis unfolding settings_of_def load_log_config_def Let_def e1 e2 ..
qed

subsection \<open>A call that returns, a call that raises\<close>

lemma configure_unfold:
  "resolve_level w (log_level s) = Inr n \<Longrightarrow> log_file s = YStr f \<Longrightarrow>
   configure rt s w =
     and_then (Path_mkdir (Path_parent (Path f)) (after_console s n w)) (\<lambda>w2.
     and_then (logger_add rt (file_sink rt s) w2) (\<lambda>w3.
       (Returned,
        logger_info rt logger (line_51 rt)
          (''Logging initialized: level='' @ py_format rt (log_level s)
             @ '', file='' @ py_format rt (log_file s)) w3)))"
  by (simp add: configure_def add_console Path_of_def)

lemma and_then_fst_Returned:
  "fst (and_then r k) = Returned \<Longrightarrow> \<exists>w'. r = (Returned, w') \<and> fst (k w') = Returned"
  by (cases r; cases "fst r") (auto simp: and_then_def)

lemma setup_logging_ReturnedD:
  assumes "fst (setup_logging rt cp w) = Returned"
  shows "\<exists>s f n w2 w3 msg.
           settings_of rt cp w = Inr s \<and> log_file s = YStr f
         \<and> resolve_level w (log_level s) = Inr n
         \<and> Path_mkdir (Path_parent (Path f)) (after_console s n w) = (Returned, w2)
         \<and> file_sink_check rt (Some (py_format rt (max_size_mb s) @ '' MB''))
              (Some (backup_count s)) = None
         \<and> open_append (Path f) (w2\<lparr>handlers_count := Suc (handlers_count w2)\<rparr>) = Inr w3
         \<and> snd (setup_logging rt cp w) =
             logger_info rt logger (line_51 rt) msg
               (w3\<lparr>handlers := handlers w3 @
                   [\<lparr>h_id = handlers_count w2, h_sink = file_sink rt s, h_levelno = n\<rparr>]\<rparr>)"
proof -
  from assms obtain s where s: "settings_of rt cp w = Inr s"
    and c: "fst (configure rt s w) = Returned"
    by (auto simp: setup_logging_def split: sum.splits)
  from c obtain n where n: "resolve_level w (log_level s) = Inr n"
    by (cases "resolve_level w (log_level s)") (auto simp: configure_def add_console)
  from c n obtain f where f: "log_file s = YStr f"
    by (cases "log_file s") (auto simp: configure_def add_console Path_of_def)
  note u = configure_unfold [OF n f, of rt]
  from c u obtain w2 where
    m: "Path_mkdir (Path_parent (Path f)) (after_console s n w) = (Returned, w2)"
    and c2: "fst (and_then (logger_add rt (file_sink rt s) w2) (\<lambda>w3.
       (Returned,
        logger_info rt logger (line_51 rt)
          (''Logging initialized: level='' @ py_format rt (log_level s)
             @ '', file='' @ py_format rt (log_file s)) w3))) = Returned"
    by (auto dest!: and_then_fst_Returned)
  from c2 obtain w3' where a: "logger_add rt (file_sink rt s) w2 = (Returned, w3')"
    by (auto dest!: and_then_fst_Returned)
  from a have chk: "file_sink_check rt (Some (py_format rt (max_size_mb s) @ '' MB''))
              (Some (backup_count s)) = None"
    by (auto simp: add_file [OF f] split: option.splits)
  from a chk obtain w3 where
    op: "open_append (Path f) (w2\<lparr>handlers_count := Suc (handlers_count w2)\<rparr>) = Inr w3"
    and r: "register (handlers_count w2) (file_sink rt s) w3 = (Returned, w3')"
    by (auto simp: add_file [OF f] split: sum.splits)
  have "levels w2 = levels w"
    using Path_mkdir_grows [OF m] by (simp add: grows_def same_logger_def after_console_def)
  moreover have "levels w3 = levels w2"
    using open_append_Inr [OF op] by (simp add: same_logger_def)
  ultimately have "resolve_level w3 (log_level s) = Inr n"
    using n by (simp add: resolve_level_levels [of w3 w])
  with r have w3': "w3' = w3\<lparr>handlers := handlers w3 @
                   [\<lparr>h_id = handlers_count w2, h_sink = file_sink rt s, h_levelno = n\<rparr>]\<rparr>"
    by (simp add: register_def)
  have "snd (setup_logging rt cp w) = logger_info rt logger (line_51 rt)
          (''Logging initialized: level='' @ py_format rt (log_level s)
             @ '', file='' @ py_format rt (log_file s)) w3'"
    by (simp add: setup_logging_def s u m a)
  with s f n m chk op w3' show ?thesis by blast
qed

text \<open>What a call that returns leaves behind.\<close>

lemma setup_logging_Returned_facts:
  assumes "fst (setup_logging rt cp w) = Returned"
  shows "\<exists>s f n.
           settings_of rt cp w = Inr s \<and> log_file s = YStr f
         \<and> resolve_level w (log_level s) = Inr n
         \<and> file_sink_check rt (Some (py_format rt (max_size_mb s) @ '' MB''))
              (Some (backup_count s)) = None
         \<and> handlers (snd (setup_logging rt cp w)) =
              [\<lparr>h_id = handlers_count w, h_sink = console_sink s, h_levelno = n\<rparr>,
               \<lparr>h_id = Suc (handlers_count w), h_sink = file_sink rt s, h_levelno = n\<rparr>]
         \<and> handlers_count (snd (setup_logging rt cp w)) = Suc (Suc (handlers_count w))
         \<and> levels (snd (setup_logging rt cp w)) = levels w
         \<and> denied (snd (setup_logging rt cp w)) = denied w
         \<and> dir_ready (snd (setup_logging rt cp w)) (Path_parent (Path f))
         \<and> is_file (snd (setup_logging rt cp w)) (Path f)
         \<and> Path f \<notin> denied w \<and> \<not> is_anchor (Path f)"
proof -
  from setup_logging_ReturnedD [OF assms] obtain s f n w2 w3 msg where
    s: "settings_of rt cp w = Inr s" and f: "log_file s = YStr f"
    and n: "resolve_level w (log_level s) = Inr n"
    and m: "Path_mkdir (Path_parent (Path f)) (after_console s n w) = (Returned, w2)"
    and chk: "file_sink_check rt (Some (py_format rt (max_size_mb s) @ '' MB''))
              (Some (backup_count s)) = None"
    and op: "open_append (Path f) (w2\<lparr>handlers_count := Suc (handlers_count w2)\<rparr>) = Inr w3"
    and fin: "snd (setup_logging rt cp w) =
             logger_info rt logger (line_51 rt) msg
               (w3\<lparr>handlers := handlers w3 @
                   [\<lparr>h_id = handlers_count w2, h_sink = file_sink rt s, h_levelno = n\<rparr>]\<rparr>)"
    by blast
  from Path_mkdir_grows [OF m] have g: "same_logger (after_console s n w) w2"
    by (simp add: grows_def)
  from open_append_Inr [OF op] have
    o1: "same_logger (w2\<lparr>handlers_count := Suc (handlers_count w2)\<rparr>) w3"
    and o2: "is_file w3 (Path f)" and o3: "Path f \<notin> denied w2" and o4: "\<not> is_anchor (Path f)"
    and o5: "\<And>q. Path_is_dir w2 q \<Longrightarrow> Path_is_dir w3 q"
    and o6: "\<And>q. Path_exists w2 q \<Longrightarrow> Path_exists w3 q"
    by auto
  have h2: "handlers w2 = [\<lparr>h_id = handlers_count w, h_sink = console_sink s, h_levelno = n\<rparr>]"
    and c2: "handlers_count w2 = Suc (handlers_count w)"
    and l2: "levels w2 = levels w" and d2: "denied w2 = denied w"
    using g by (simp_all add: same_logger_def after_console_def)
  have h3: "handlers w3 = handlers w2" and c3: "handlers_count w3 = Suc (handlers_count w2)"
    and l3: "levels w3 = levels w2" and d3: "denied w3 = denied w2"
    using o1 by (simp_all add: same_logger_def)
  from Path_mkdir_ready [OF m] have "dir_ready w2 (Path_parent (Path f))" .
  with o5 o6 have r3: "dir_ready w3 (Path_parent (Path f))"
    by (simp add: dir_ready_def)
  show ?thesis
    apply (rule exI [of _ s], rule exI [of _ f], rule exI [of _ n])
    using s f n chk o2 o3 o4 r3 by (simp add: fin h2 c2 l2 d2 h3 c3 l3 d3)
qed

text \<open>A call that starts where a returning call ended, and reads the same settings, returns.\<close>

lemma setup_logging_again:
  assumes first: "fst (setup_logging rt cp w) = Returned"
    and same: "settings_of rt cp (snd (setup_logging rt cp w)) = settings_of rt cp w"
  shows "fst (setup_logging rt cp (snd (setup_logging rt cp w))) = Returned"
proof -
  define w' where "w' = snd (setup_logging rt cp w)"
  from setup_logging_Returned_facts [OF first] obtain s f n where
    s: "settings_of rt cp w = Inr s" and f: "log_file s = YStr f"
    and n: "resolve_level w (log_level s) = Inr n"
    and chk: "file_sink_check rt (Some (py_format rt (max_size_mb s) @ '' MB''))
              (Some (backup_count s)) = None"
    and l: "levels w' = levels w" and d: "denied w' = denied w"
    and r: "dir_ready w' (Path_parent (Path f))"
    and fl: "is_file w' (Path f)" and nd: "Path f \<notin> denied w" and na: "\<not> is_anchor (Path f)"
    unfolding w'_def by blast
  from n l have n': "resolve_level w' (log_level s) = Inr n"
    by (simp add: resolve_level_levels [of w' w])
  have m: "Path_mkdir (Path_parent (Path f)) (after_console s n w') = (Returned, after_console s n w')"
    by (rule Path_mkdir_again) (simp add: r)
  have op: "open_append (Path f) (after_console s n w'\<lparr>handlers_count := Suc (Suc (handlers_count w'))\<rparr>)
              = Inr (after_console s n w'\<lparr>handlers_count := Suc (Suc (handlers_count w'))\<rparr>)"
    by (rule open_append_again) (simp_all add: fl nd d r na)
  have n'': "resolve_level (after_console s n w') (log_level s) = Inr n"
    using n' by (simp add: after_console_def)
  have a: "fst (logger_add rt (file_sink rt s) (after_console s n w')) = Returned"
    by (simp add: add_file [OF f] chk op register_def n'')
  then obtain w3 where a': "logger_add rt (file_sink rt s) (after_console s n w') = (Returned, w3)"
    by (cases "logger_add rt (file_sink rt s) (after_console s n w')") simp
  from same s have s': "settings_of rt cp w' = Inr s" by (simp add: w'_def)
  have "fst (setup_logging rt cp w') = Returned"
    by (simp add: setup_logging_def s' configure_unfold [OF n' f] m a')
  then show ?thesis by (simp add: w'_def)
qed

text \<open>
  A returning call leaves the settings readable as before, when the configuration path is
  neither the log file nor a directory above it.
\<close>

lemma settings_survive_setup:
  assumes "fst (setup_logging rt cp w) = Returned"
    and "settings_of rt cp w = Inr s" and "log_file s = YStr f"
    and "\<not> prefix (Path cp) (Path f)"
  shows "settings_of rt cp (snd (setup_logging rt cp w)) = settings_of rt cp w"
proof -
  from setup_logging_ReturnedD [OF assms(1)] obtain s' f' n w2 w3 msg where
    s': "settings_of rt cp w = Inr s'" and f': "log_file s' = YStr f'"
    and m': "Path_mkdir (Path_parent (Path f')) (after_console s' n w) = (Returned, w2)"
    and op': "open_append (Path f') (w2\<lparr>handlers_count := Suc (handlers_count w2)\<rparr>) = Inr w3"
    and fin': "snd (setup_logging rt cp w) =
             logger_info rt logger (line_51 rt) msg
               (w3\<lparr>handlers := handlers w3 @
                   [\<lparr>h_id = handlers_count w2, h_sink = file_sink rt s', h_levelno = n\<rparr>]\<rparr>)"
    by blast
  from s' assms(2) have ss: "s' = s" by simp
  with f' assms(3) have ff: "f' = f" by simp
  note m = m' [unfolded ss ff] and op = op' [unfolded ss ff] and fin = fin' [unfolded ss ff]
  from assms(4) have ne: "Path cp \<noteq> Path f" by auto
  from assms(4) have "\<not> prefix (Path cp) (Path_parent (Path f))"
    using prefix_Path_parent by blast
  from Path_mkdir_nodes [OF m this] have n2: "nodes w2 (Path cp) = nodes w (Path cp)"
    by (simp add: after_console_def)
  from open_append_nodes [OF op ne] have n3: "nodes w3 (Path cp) = nodes w2 (Path cp)" by simp
  from Path_mkdir_grows [OF m] have h2:
    "handlers w2 = [\<lparr>h_id = handlers_count w, h_sink = console_sink s, h_levelno = n\<rparr>]"
    and d2: "denied w2 = denied w"
    by (simp_all add: grows_def same_logger_def)
  from open_append_Inr [OF op] have h3: "handlers w3 = handlers w2" and d3: "denied w3 = denied w2"
    by (simp_all add: same_logger_def)
  have c: "nodes (write_sink (console_sink s) t v) (Path cp) = nodes v (Path cp)" for t v
    by (rule write_sink_nodes) simp
  have g: "nodes (write_sink (file_sink rt s) t v) (Path cp) = nodes v (Path cp)" for t v
    by (rule write_sink_nodes [of _ f]) (simp add: assms(3) ne [symmetric])
  have "nodes (snd (setup_logging rt cp w)) (Path cp) = nodes w3 (Path cp)"
    by (simp add: fin logger_info_def h3 h2 c g)
  with n2 n3 have "nodes (snd (setup_logging rt cp w)) (Path cp) = nodes w (Path cp)"
    by simp
  moreover have "denied (snd (setup_logging rt cp w)) = denied w"
    by (simp add: fin d3 d2)
  ultimately show ?thesis by (rule settings_of_cong)
qed

text \<open>Where lines 39 and 42 raise, the call raises the same, in the world they left.\<close>

lemma setup_logging_mkdir_raises:
  "settings_of rt cp w = Inr s \<Longrightarrow> resolve_level w (log_level s) = Inr n \<Longrightarrow>
   log_file s = YStr f \<Longrightarrow>
   Path_mkdir (Path_parent (Path f)) (after_console s n w) = (Raised e, w2) \<Longrightarrow>
   setup_logging rt cp w = (Raised e, w2)"
  by (simp add: setup_logging_def configure_unfold)

lemma setup_logging_add_raises:
  "settings_of rt cp w = Inr s \<Longrightarrow> resolve_level w (log_level s) = Inr n \<Longrightarrow>
   log_file s = YStr f \<Longrightarrow>
   Path_mkdir (Path_parent (Path f)) (after_console s n w) = (Returned, w2) \<Longrightarrow>
   logger_add rt (file_sink rt s) w2 = (Raised e, w3) \<Longrightarrow>
   setup_logging rt cp w = (Raised e, w3)"
  by (simp add: setup_logging_def configure_unfold)

text \<open>
  Every call, whatever its outcome: the handler list is left untouched (the call raised
  while reading the settings), or it holds nothing but what this call added, under the
  ids this call took.
\<close>

lemma configure_handlers_cases:
  "handlers (snd (configure rt s w)) = []
   \<or> (\<exists>n. handlers (snd (configure rt s w)) =
          [\<lparr>h_id = handlers_count w, h_sink = console_sink s, h_levelno = n\<rparr>])
   \<or> (\<exists>n. handlers (snd (configure rt s w)) =
          [\<lparr>h_id = handlers_count w, h_sink = console_sink s, h_levelno = n\<rparr>,
           \<lparr>h_id = Suc (handlers_count w), h_sink = file_sink rt s, h_levelno = n\<rparr>])"
proof (cases "resolve_level w (log_level s)")
  case (Inl e)
  then show ?thesis by (simp add: configure_def add_console)
next
  case (Inr n)
  show ?thesis
  proof (cases "\<exists>f. log_file s = YStr f")
    case False
    then have "Path_of (log_file s) = Inl TypeError"
      by (cases "log_file s") (simp_all add: Path_of_def)
    with Inr show ?thesis by (simp add: configure_def add_console)
  next
    case True
    then obtain f where f: "log_file s = YStr f" by blast
    note u = configure_unfold [OF Inr f, of rt]
    obtain o2 w2 where m: "Path_mkdir (Path_parent (Path f)) (after_console s n w) = (o2, w2)"
      by (cases "Path_mkdir (Path_parent (Path f)) (after_console s n w)")
    from Path_mkdir_grows [OF m] have h2: "handlers w2 =
        [\<lparr>h_id = handlers_count w, h_sink = console_sink s, h_levelno = n\<rparr>]"
      and c2: "handlers_count w2 = Suc (handlers_count w)" and l2: "levels w2 = levels w"
      by (simp_all add: grows_def same_logger_def)
    show ?thesis
    proof (cases o2)
      case (Raised e)
      with u m h2 show ?thesis by simp
    next
      case Returned
      obtain o3 w3 where a: "logger_add rt (file_sink rt s) w2 = (o3, w3)"
        by (cases "logger_add rt (file_sink rt s) w2")
      show ?thesis
      proof (cases o3)
        case (Raised e)
        with logger_add_Raised_handlers [of rt "file_sink rt s" w2 e w3] a u m Returned h2
        show ?thesis by simp
      next
        case R3: Returned
        from a R3 f have "\<exists>w'. register (handlers_count w2) (file_sink rt s) w' = (Returned, w3)
             \<and> levels w' = levels w2 \<and> handlers w' = handlers w2"
          by (auto simp: add_file same_logger_def split: option.splits sum.splits
              dest!: open_append_Inr)
        then obtain w' where r: "register (handlers_count w2) (file_sink rt s) w' = (Returned, w3)"
          and l': "levels w' = levels w2" and h': "handlers w' = handlers w2" by blast
        from l' l2 Inr have "resolve_level w' (log_level s) = Inr n"
          by (simp add: resolve_level_levels [of w' w])
        with r h' have "handlers w3 = handlers w2 @
                  [\<lparr>h_id = handlers_count w2, h_sink = file_sink rt s, h_levelno = n\<rparr>]"
          by (auto simp: register_def)
        with u m Returned a R3 h2 c2 show ?thesis by simp
      qed
    qed
  qed
qed

lemma setup_logging_handlers_cases:
  "(\<exists>e. settings_of rt cp w = Inl e \<and> setup_logging rt cp w = (Raised e, w))
   \<or> (\<exists>s. settings_of rt cp w = Inr s
        \<and> (handlers (snd (setup_logging rt cp w)) = []
           \<or> (\<exists>n. handlers (snd (setup_logging rt cp w)) =
                  [\<lparr>h_id = handlers_count w, h_sink = console_sink s, h_levelno = n\<rparr>])
           \<or> (\<exists>n. handlers (snd (setup_logging rt cp w)) =
                  [\<lparr>h_id = handlers_count w, h_sink = console_sink s, h_levelno = n\<rparr>,
                   \<lparr>h_id = Suc (handlers_count w), h_sink = file_sink rt s, h_levelno = n\<rparr>])))"
proof (cases "settings_of rt cp w")
  case (Inl e)
  then show ?thesis by (simp add: setup_logging_def)
next
  case (Inr s)
  with configure_handlers_cases [of rt s w] show ?thesis by (simp add: setup_logging_def)
qed

subsection \<open>Handler ids\<close>

lemma ids_fresh_after:
  "ids_fresh w \<Longrightarrow> \<lparr>h_id = handlers_count w, h_sink = x, h_levelno = n\<rparr> \<notin> set (handlers w)"
  by (auto simp: ids_fresh_def list_all_iff)

text \<open>The handler ids stay fresh through every step of a call, whatever its outcome.\<close>

lemma ids_fresh_same: "same_logger w w' \<Longrightarrow> ids_fresh w \<Longrightarrow> ids_fresh w'"
  by (simp add: ids_fresh_def same_logger_def)

lemma ids_fresh_logger_add: "ids_fresh w \<Longrightarrow> ids_fresh (snd (logger_add rt x w))"
  using logger_add_handlers [of rt x w]
  by (auto simp: ids_fresh_def list_all_iff logger_add_count intro: less_SucI)

lemma ids_fresh_Path_mkdir: "ids_fresh w \<Longrightarrow> ids_fresh (snd (Path_mkdir p w))"
  using Path_mkdir_grows [of p w "fst (Path_mkdir p w)" "snd (Path_mkdir p w)"]
  by (auto simp: grows_def intro: ids_fresh_same)

lemma ids_fresh_logger_info: "ids_fresh w \<Longrightarrow> ids_fresh (logger_info rt h fr msg w)"
  by (simp add: ids_fresh_def)

lemma ids_fresh_and_then:
  "ids_fresh (snd r) \<Longrightarrow> (\<And>w. ids_fresh w \<Longrightarrow> ids_fresh (snd (k w))) \<Longrightarrow>
   ids_fresh (snd (and_then r k))"
  by (cases r; cases "fst r") (auto simp: and_then_def)

lemma ids_fresh_setup_logging: "ids_fresh w \<Longrightarrow> ids_fresh (snd (setup_logging rt cp w))"
proof -
  assume a: "ids_fresh w"
  have "ids_fresh (logger_remove w)" by (simp add: logger_remove_def ids_fresh_def)
  then have c: "ids_fresh (snd (logger_add rt (console_sink s) (logger_remove w)))" for s
    by (rule ids_fresh_logger_add)
  have "ids_fresh (snd (configure rt s w))" for s
    unfolding configure_def
    by (intro ids_fresh_and_then c)
       (auto split: sum.splits intro!: ids_fresh_and_then ids_fresh_Path_mkdir
          ids_fresh_logger_add ids_fresh_logger_info)
  with a show ?thesis by (simp add: setup_logging_def split: sum.splits)
qed

subsection \<open>Rendering\<close>

text \<open>Binding a name changes neither rendering: the formats do not read \<^verbatim>\<open>extra\<close>.\<close>

lemma render_ignores_extra:
  "render console_format (make_record rt (get_logger rt name) fr lvl no msg)
     = render console_format (make_record rt logger fr lvl no msg)
   \<and> render file_format (make_record rt (get_logger rt name) fr lvl no msg)
     = render file_format (make_record rt logger fr lvl no msg)"
  by (simp add: render_def console_format_def file_format_def make_record_def)

section \<open>The claims\<close>

text \<open>
  C1. A call of \<^verbatim>\<open>setup_logging\<close> removes every handler before it adds its two, so calling
  it twice leaves the same sinks as calling it once, and a record is printed on the
  console once. The statement has two parts. First, for every call, whatever its outcome:
  either it raised while reading the settings and left the world as it was, or the
  handlers it leaves are none, the new console handler alone, or the new console and
  file handlers, under the two ids the call took (ids that, in a world where
  \<open>ids_fresh\<close> holds, no handler of before has).
  Second, for a call that returns, followed by a second call that reads the same
  settings: the second call returns too; the sinks it leaves (ids aside) are those the
  first left, the console sink and the file sink of the settings; and a record emitted
  after the second call adds one line to standard output when it reaches the level, none
  otherwise. The second call reads the same settings whenever the configuration path is
  neither the log file nor a directory above it (lemma \<open>settings_survive_setup\<close>): only
  there does the first call write.
\<close>

theorem setup_logging_twice_same_sinks:
  "((\<exists>e. settings_of rt cp w = Inl e \<and> setup_logging rt cp w = (Raised e, w))
    \<or> (\<exists>s. settings_of rt cp w = Inr s
         \<and> (handlers (snd (setup_logging rt cp w)) = []
            \<or> (\<exists>n. handlers (snd (setup_logging rt cp w)) =
                   [\<lparr>h_id = handlers_count w, h_sink = console_sink s, h_levelno = n\<rparr>])
            \<or> (\<exists>n. handlers (snd (setup_logging rt cp w)) =
                   [\<lparr>h_id = handlers_count w, h_sink = console_sink s, h_levelno = n\<rparr>,
                    \<lparr>h_id = Suc (handlers_count w), h_sink = file_sink rt s,
                      h_levelno = n\<rparr>]))))
   \<and> (fst (setup_logging rt cp w) = Returned
        \<and> settings_of rt cp (snd (setup_logging rt cp w)) = settings_of rt cp w
      \<longrightarrow>
        fst (setup_logging rt cp (snd (setup_logging rt cp w))) = Returned
      \<and> sinks_of (snd (setup_logging rt cp (snd (setup_logging rt cp w))))
           = sinks_of (snd (setup_logging rt cp w))
      \<and> (\<exists>s n. settings_of rt cp w = Inr s
            \<and> sinks_of (snd (setup_logging rt cp w)) = [(console_sink s, n), (file_sink rt s, n)]
            \<and> (\<forall>r. stdout (emit (handlers (snd (setup_logging rt cp (snd (setup_logging rt cp w))))) r
                           (snd (setup_logging rt cp (snd (setup_logging rt cp w)))))
                     = stdout (snd (setup_logging rt cp (snd (setup_logging rt cp w))))
                         @ (if n \<le> rec_levelno r then [render console_format r] else []))))"
  (is "?every \<and> (?twice \<longrightarrow> ?same)")
proof (rule conjI)
  show ?every by (rule setup_logging_handlers_cases)
next
  show "?twice \<longrightarrow> ?same"
  proof (rule impI)
    assume ?twice
    then have first: "fst (setup_logging rt cp w) = Returned"
      and same: "settings_of rt cp (snd (setup_logging rt cp w)) = settings_of rt cp w"
      by simp_all
    define w1 where "w1 = snd (setup_logging rt cp w)"
    define w2 where "w2 = snd (setup_logging rt cp w1)"
    have second: "fst (setup_logging rt cp w1) = Returned"
      unfolding w1_def using first same by (rule setup_logging_again)
    from setup_logging_Returned_facts [OF first] obtain s f n where
      s: "settings_of rt cp w = Inr s"
      and n: "resolve_level w (log_level s) = Inr n"
      and h1: "handlers w1 =
                [\<lparr>h_id = handlers_count w, h_sink = console_sink s, h_levelno = n\<rparr>,
                 \<lparr>h_id = Suc (handlers_count w), h_sink = file_sink rt s, h_levelno = n\<rparr>]"
      and l1: "levels w1 = levels w"
      unfolding w1_def by blast
    from setup_logging_Returned_facts [OF second] obtain s' f' n' where
      s': "settings_of rt cp w1 = Inr s'"
      and n': "resolve_level w1 (log_level s') = Inr n'"
      and h2: "handlers w2 =
                [\<lparr>h_id = handlers_count w1, h_sink = console_sink s', h_levelno = n'\<rparr>,
                 \<lparr>h_id = Suc (handlers_count w1), h_sink = file_sink rt s', h_levelno = n'\<rparr>]"
      unfolding w2_def by blast
    from s s' same have ss: "s' = s" by (simp add: w1_def)
    from n n' l1 ss have nn: "n' = n" by (simp add: resolve_level_levels [of w1 w])
    have "sinks_of w2 = sinks_of w1" by (simp add: sinks_of_def h1 h2 ss nn)
    moreover have "sinks_of w1 = [(console_sink s, n), (file_sink rt s, n)]"
      by (simp add: sinks_of_def h1)
    moreover have "\<forall>r. stdout (emit (handlers w2) r w2)
                        = stdout w2 @ (if n \<le> rec_levelno r then [render console_format r] else [])"
      by (simp add: write_sink_stdout h2 ss nn)
    ultimately show ?same using second s unfolding w2_def w1_def by blast
  qed
qed

theorem setup_logging_twice_same_sinks_witness:
  "fst (setup_logging example_runtime ''config.yaml'' fresh_world) = Returned
   \<and> settings_of example_runtime ''config.yaml''
         (snd (setup_logging example_runtime ''config.yaml'' fresh_world))
       = settings_of example_runtime ''config.yaml'' fresh_world
   \<and> fst (setup_logging example_runtime ''config.yaml''
         (snd (setup_logging example_runtime ''config.yaml'' fresh_world))) = Returned
   \<and> sinks_of (snd (setup_logging example_runtime ''config.yaml''
         (snd (setup_logging example_runtime ''config.yaml'' fresh_world))))
       = sinks_of (snd (setup_logging example_runtime ''config.yaml'' fresh_world))"
proof -
  have h1: "fst (setup_logging example_runtime ''config.yaml'' fresh_world) = Returned"
    by code_simp
  have h2: "settings_of example_runtime ''config.yaml''
         (snd (setup_logging example_runtime ''config.yaml'' fresh_world))
       = settings_of example_runtime ''config.yaml'' fresh_world"
    by code_simp
  from setup_logging_twice_same_sinks [of example_runtime "''config.yaml''" fresh_world] h1 h2
  show ?thesis by blast
qed

text \<open>
  C2. When the configuration file does not exist, or exists and parses to a dict without
  the key \<^verbatim>\<open>logging\<close>, every setting takes its default: level \<^verbatim>\<open>INFO\<close>, file
  \<^verbatim>\<open>logs/bot.log\<close>, 10 for the rotation size and 5 for the backups. A call that then returns
  has registered the console sink at \<^verbatim>\<open>INFO\<close> and the file sink on \<^verbatim>\<open>logs/bot.log\<close> with
  rotation \<^verbatim>\<open>10 MB\<close>, retention 5 and zip compression.
\<close>

theorem defaults_without_logging_section:
  assumes "\<not> Path_exists w (Path cp)
         \<or> (\<exists>text items. open_read w (Path cp) = Inr text
               \<and> yaml_safe_load rt text = Some (YMap items)
               \<and> map_of items (YStr ''logging'') = None)"
  shows "settings_of rt cp w =
           Inr \<lparr>log_level = YStr ''INFO'', log_file = YStr ''logs/bot.log'',
                max_size_mb = YInt 10, backup_count = YInt 5\<rparr>
       \<and> (fst (setup_logging rt cp w) = Returned \<longrightarrow>
            (\<exists>n. map_of (levels w) ''INFO'' = Some n
               \<and> sinks_of (snd (setup_logging rt cp w)) =
                    [(\<lparr>target = Stdout, format = console_format, level = YStr ''INFO'',
                        colorize = True, rotation = None, retention = None,
                        compression = None\<rparr>, n),
                     (\<lparr>target = Named (YStr ''logs/bot.log''), format = file_format,
                        level = YStr ''INFO'', colorize = False, rotation = Some ''10 MB'',
                        retention = Some (YInt 5), compression = Some ''zip''\<rparr>, n)]))"
proof -
  from assms have s: "settings_of rt cp w =
           Inr \<lparr>log_level = YStr ''INFO'', log_file = YStr ''logs/bot.log'',
                max_size_mb = YInt 10, backup_count = YInt 5\<rparr>"
    by (auto simp: settings_of_missing settings_of_no_section read_settings_empty)
  moreover have "\<exists>n. map_of (levels w) ''INFO'' = Some n
               \<and> sinks_of (snd (setup_logging rt cp w)) =
                    [(\<lparr>target = Stdout, format = console_format, level = YStr ''INFO'',
                        colorize = True, rotation = None, retention = None,
                        compression = None\<rparr>, n),
                     (\<lparr>target = Named (YStr ''logs/bot.log''), format = file_format,
                        level = YStr ''INFO'', colorize = False, rotation = Some ''10 MB'',
                        retention = Some (YInt 5), compression = Some ''zip''\<rparr>, n)]"
    if r: "fst (setup_logging rt cp w) = Returned"
  proof -
    from setup_logging_Returned_facts [OF r] s obtain n where
      n: "resolve_level w (YStr ''INFO'') = Inr n"
      and h: "handlers (snd (setup_logging rt cp w)) =
              [\<lparr>h_id = handlers_count w,
                h_sink = console_sink \<lparr>log_level = YStr ''INFO'', log_file = YStr ''logs/bot.log'',
                max_size_mb = YInt 10, backup_count = YInt 5\<rparr>, h_levelno = n\<rparr>,
               \<lparr>h_id = Suc (handlers_count w),
                h_sink = file_sink rt \<lparr>log_level = YStr ''INFO'', log_file = YStr ''logs/bot.log'',
                max_size_mb = YInt 10, backup_count = YInt 5\<rparr>, h_levelno = n\<rparr>]"
      by auto
    from n have "map_of (levels w) ''INFO'' = Some n" by (simp only: resolve_level_str)
    then show ?thesis
      by (simp add: sinks_of_def h console_sink_def file_sink_def py_format_10)
  qed
  ultimately show ?thesis by blast
qed

theorem defaults_without_logging_section_witness:
  "\<not> Path_exists fresh_world (Path ''config.yaml'')
   \<and> settings_of example_runtime ''config.yaml'' fresh_world =
           Inr \<lparr>log_level = YStr ''INFO'', log_file = YStr ''logs/bot.log'',
                max_size_mb = YInt 10, backup_count = YInt 5\<rparr>
   \<and> fst (setup_logging example_runtime ''config.yaml'' fresh_world) = Returned
   \<and> (\<exists>n. map_of (levels fresh_world) ''INFO'' = Some n
               \<and> sinks_of (snd (setup_logging example_runtime ''config.yaml'' fresh_world)) =
                    [(\<lparr>target = Stdout, format = console_format, level = YStr ''INFO'',
                        colorize = True, rotation = None, retention = None,
                        compression = None\<rparr>, n),
                     (\<lparr>target = Named (YStr ''logs/bot.log''), format = file_format,
                        level = YStr ''INFO'', colorize = False, rotation = Some ''10 MB'',
                        retention = Some (YInt 5), compression = Some ''zip''\<rparr>, n)])
   \<and> open_read (with_file ''config.yaml'' ''port: 8080'' fresh_world) (Path ''config.yaml'')
         = Inr ''port: 8080''
   \<and> yaml_safe_load example_runtime ''port: 8080'' = Some (YMap [(YStr ''port'', YInt 8080)])
   \<and> map_of [(YStr ''port'', YInt 8080)] (YStr ''logging'') = None
   \<and> settings_of example_runtime ''config.yaml''
         (with_file ''config.yaml'' ''port: 8080'' fresh_world) =
           Inr \<lparr>log_level = YStr ''INFO'', log_file = YStr ''logs/bot.log'',
                max_size_mb = YInt 10, backup_count = YInt 5\<rparr>"
proof -
  have h1: "\<not> Path_exists fresh_world (Path ''config.yaml'')"
    by code_simp
  have h2: "fst (setup_logging example_runtime ''config.yaml'' fresh_world) = Returned"
    by code_simp
  have g1: "open_read (with_file ''config.yaml'' ''port: 8080'' fresh_world)
              (Path ''config.yaml'') = Inr ''port: 8080''"
    by code_simp
  have g2: "yaml_safe_load example_runtime ''port: 8080''
              = Some (YMap [(YStr ''port'', YInt 8080)])"
    by code_simp
  have g3: "map_of [(YStr ''port'', YInt 8080)] (YStr ''logging'') = None"
    by simp
  from defaults_without_logging_section [of fresh_world "''config.yaml''" example_runtime]
    defaults_without_logging_section
      [of "with_file ''config.yaml'' ''port: 8080'' fresh_world" "''config.yaml''" example_runtime]
    h1 h2 g1 g2 g3
  show ?thesis by blast
qed

text \<open>
  C3. The claim: a record emitted through \<^verbatim>\<open>get_logger(name)\<close> carries \<open>name\<close> as metadata
  and shows it in the \<^verbatim>\<open>{name}\<close> field of the rendered line. The first half holds: \<^verbatim>\<open>bind\<close>
  puts the name into the record's \<^verbatim>\<open>extra\<close> dict. The second does not: loguru fills
  \<^verbatim>\<open>{name}\<close> from the \<^verbatim>\<open>__name__\<close> of the module that makes the logging call, and
  neither format prints \<^verbatim>\<open>extra\<close>. Evaluated for the handle \<^verbatim>\<open>get_logger("moduleA")\<close> used from
  the module \<^verbatim>\<open>__main__\<close>, after a default setup: the record has \<^verbatim>\<open>moduleA\<close> in \<^verbatim>\<open>extra\<close>, and the
  console line reads \<^verbatim>\<open>__main__:run:7\<close>, without \<^verbatim>\<open>moduleA\<close> anywhere.
\<close>

theorem bound_name_not_rendered:
  "rec_extra (make_record example_runtime (get_logger example_runtime (Some ''moduleA''))
       \<lparr>f_name = ''__main__'', f_function = ''run'', f_line = 7\<rparr> ''INFO'' 20 ''hello'') ''name''
     = Some ''moduleA''
   \<and> render console_format
       (make_record example_runtime (get_logger example_runtime (Some ''moduleA''))
          \<lparr>f_name = ''__main__'', f_function = ''run'', f_line = 7\<rparr> ''INFO'' 20 ''hello'')
     = ''2024-01-01 12:00:00 | INFO     | __main__:run:7 - hello'' @ [CHR 0x0A]
   \<and> stdout (logger_info example_runtime (get_logger example_runtime (Some ''moduleA''))
               \<lparr>f_name = ''__main__'', f_function = ''run'', f_line = 7\<rparr> ''hello''
               (snd (setup_logging example_runtime ''config.yaml'' fresh_world)))
     = stdout (snd (setup_logging example_runtime ''config.yaml'' fresh_world))
         @ [''2024-01-01 12:00:00 | INFO     | __main__:run:7 - hello'' @ [CHR 0x0A]]"
  by code_simp

text \<open>
  C4. When the configuration file is there and readable but the parser rejects its text,
  \<^verbatim>\<open>setup_logging\<close> raises the parser's \<^verbatim>\<open>YAMLError\<close> (the spec's ConfigParseError). Nothing
  in the function catches it and nothing is tried again: the caller gets the exception, and
  the world, the logger's handlers included, is as it was before the call.
\<close>

theorem malformed_config_raises_parse_error:
  assumes "open_read w (Path config_path) = Inr text"
    and "yaml_safe_load rt text = None"
  shows "setup_logging rt config_path w = (Raised YAMLError, w)"
  using assms open_read_exists [OF assms(1)]
  by (simp add: setup_logging_def settings_of_def load_log_config_def)

theorem malformed_config_raises_parse_error_witness:
  "open_read (with_file ''config.yaml'' ''logging: [oops'' fresh_world) (Path ''config.yaml'')
     = Inr ''logging: [oops''
   \<and> yaml_safe_load example_runtime ''logging: [oops'' = None
   \<and> setup_logging example_runtime ''config.yaml''
         (with_file ''config.yaml'' ''logging: [oops'' fresh_world)
       = (Raised YAMLError, with_file ''config.yaml'' ''logging: [oops'' fresh_world)"
proof -
  have h1: "open_read (with_file ''config.yaml'' ''logging: [oops'' fresh_world)
              (Path ''config.yaml'') = Inr ''logging: [oops''"
    by code_simp
  have h2: "yaml_safe_load example_runtime ''logging: [oops'' = None"
    by code_simp
  from malformed_config_raises_parse_error [OF h1 h2] h1 h2 show ?thesis by blast
qed

text \<open>
  C5. The claim: \<^verbatim>\<open>get_logger()\<close> with no argument binds the name of the module that calls
  it. It does not: Python evaluates the default \<^verbatim>\<open>__name__\<close> once, where the function is
  defined, so the handle is bound to the name of \<^verbatim>\<open>logger.py\<close> itself. A caller in a module
  named \<^verbatim>\<open>moduleA\<close> gets a handle bound to \<^verbatim>\<open>src.utils.logger\<close>.
\<close>

theorem default_name_not_the_caller:
  "extra (get_logger example_runtime None) ''name''
     \<noteq> Some (f_name \<lparr>f_name = ''moduleA'', f_function = ''run'', f_line = 7\<rparr>)"
  by (simp add: get_logger_def logger_bind_def example_runtime_def)

text \<open>
  C5, as amended: with the argument omitted, the handle is bound to the value of
  \<^verbatim>\<open>__name__\<close> in the defining module, and is the handle that passing this name
  explicitly gives; who calls plays no part.
\<close>

theorem default_name_is_module_name:
  "extra (get_logger rt None) ''name'' = Some (dunder_name rt)
   \<and> get_logger rt None = get_logger rt (Some (dunder_name rt))"
  by (simp add: get_logger_def logger_bind_def)

theorem default_name_is_module_name_witness:
  "extra (get_logger example_runtime None) ''name'' = Some ''src.utils.logger''"
proof -
  have "dunder_name example_runtime = ''src.utils.logger''"
    by (simp add: example_runtime_def)
  with default_name_is_module_name [of example_runtime, THEN conjunct1] show ?thesis by simp
qed



text \<open>
  C7. After a call of \<^verbatim>\<open>setup_logging\<close> that returns, the parent directory of the
  configured log file is a directory of the file system: line 39 has made it, with the
  missing directories above it, if it was not there.
\<close>

theorem log_directory_exists_after_setup:
  assumes "fst (setup_logging rt cp w) = Returned"
  shows "\<exists>s f. settings_of rt cp w = Inr s \<and> log_file s = YStr f
           \<and> Path_is_dir (snd (setup_logging rt cp w)) (Path_parent (Path f))"
proof -
  from setup_logging_Returned_facts [OF assms] obtain s f where
    "settings_of rt cp w = Inr s" "log_file s = YStr f"
    "dir_ready (snd (setup_logging rt cp w)) (Path_parent (Path f))"
    by blast
  then show ?thesis by (auto simp: dir_ready_def)
qed

theorem log_directory_exists_after_setup_witness:
  "fst (setup_logging example_runtime ''config.yaml''
          (with_file ''config.yaml'' ''logging: {level: DEBUG, file: var/log/app.log}'' fresh_world))
     = Returned
   \<and> (\<exists>s f. settings_of example_runtime ''config.yaml''
                (with_file ''config.yaml'' ''logging: {level: DEBUG, file: var/log/app.log}'' fresh_world)
              = Inr s
           \<and> log_file s = YStr f
           \<and> Path_is_dir (snd (setup_logging example_runtime ''config.yaml''
                (with_file ''config.yaml'' ''logging: {level: DEBUG, file: var/log/app.log}'' fresh_world)))
                (Path_parent (Path f)))
   \<and> Path_is_dir (snd (setup_logging example_runtime ''config.yaml''
                (with_file ''config.yaml'' ''logging: {level: DEBUG, file: var/log/app.log}'' fresh_world)))
         [''var'', ''log'']
   \<and> \<not> Path_is_dir
          (with_file ''config.yaml'' ''logging: {level: DEBUG, file: var/log/app.log}'' fresh_world)
          [''var'']"
proof -
  have h: "fst (setup_logging example_runtime ''config.yaml''
          (with_file ''config.yaml'' ''logging: {level: DEBUG, file: var/log/app.log}'' fresh_world))
     = Returned"
    by code_simp
  have d: "Path_is_dir (snd (setup_logging example_runtime ''config.yaml''
                (with_file ''config.yaml'' ''logging: {level: DEBUG, file: var/log/app.log}'' fresh_world)))
         [''var'', ''log'']"
    by code_simp
  have n: "\<not> Path_is_dir
          (with_file ''config.yaml'' ''logging: {level: DEBUG, file: var/log/app.log}'' fresh_world)
          [''var'']"
    by code_simp
  from log_directory_exists_after_setup [OF h] h d n show ?thesis by blast
qed



text \<open>
  C9. When the configuration file is there and parses, but to something that is not a
  dict (\<^verbatim>\<open>None\<close> for an empty file, a list, a scalar), the lookup \<^verbatim>\<open>config.get\<close> on line 16
  raises \<^verbatim>\<open>AttributeError\<close>: the call neither falls back to the defaults nor reports a
  parse error, and it leaves the world as it was.
\<close>

theorem non_mapping_config_raises_attribute_error:
  assumes "open_read w (Path config_path) = Inr text"
    and "yaml_safe_load rt text = Some v"
    and "\<not> is_mapping v"
  shows "setup_logging rt config_path w = (Raised AttributeError, w)"
  using assms open_read_exists [OF assms(1)]
  by (simp add: setup_logging_def settings_of_def load_log_config_def dict_get_not_mapping)

theorem non_mapping_config_raises_attribute_error_witness:
  "open_read (with_file ''config.yaml'' [] fresh_world) (Path ''config.yaml'') = Inr []
   \<and> yaml_safe_load example_runtime [] = Some YNull
   \<and> \<not> is_mapping YNull
   \<and> setup_logging example_runtime ''config.yaml'' (with_file ''config.yaml'' [] fresh_world)
       = (Raised AttributeError, with_file ''config.yaml'' [] fresh_world)
   \<and> open_read (with_file ''config.yaml'' ''- a'' fresh_world) (Path ''config.yaml'') = Inr ''- a''
   \<and> yaml_safe_load example_runtime ''- a'' = Some (YSeq [YStr ''a''])
   \<and> \<not> is_mapping (YSeq [YStr ''a''])
   \<and> setup_logging example_runtime ''config.yaml'' (with_file ''config.yaml'' ''- a'' fresh_world)
       = (Raised AttributeError, with_file ''config.yaml'' ''- a'' fresh_world)"
proof -
  have h1: "open_read (with_file ''config.yaml'' [] fresh_world) (Path ''config.yaml'') = Inr []"
    by code_simp
  have h2: "yaml_safe_load example_runtime [] = Some YNull"
    by code_simp
  have h3: "\<not> is_mapping YNull"
    by (simp add: is_mapping_def)
  have g1: "open_read (with_file ''config.yaml'' ''- a'' fresh_world) (Path ''config.yaml'')
              = Inr ''- a''"
    by code_simp
  have g2: "yaml_safe_load example_runtime ''- a'' = Some (YSeq [YStr ''a''])"
    by code_simp
  have g3: "\<not> is_mapping (YSeq [YStr ''a''])"
    by (simp add: is_mapping_def)
  from non_mapping_config_raises_attribute_error [OF h1 h2 h3]
    non_mapping_config_raises_attribute_error [OF g1 g2 g3] h1 h2 h3 g1 g2 g3
  show ?thesis by blast
qed

text \<open>
  C10. \<^verbatim>\<open>setup_logging\<close> is not atomic. When making the directory (line 39) or adding the
  file sink (lines 42 to 49) raises, the call ends with that exception in a world where the
  handlers registered before the call are gone and the new console handler is the only
  one: this is not the state a finished call leaves (console and file sink), and it is
  not the state before the call (no handler of before is still registered). Handler ids
  are never reused: that is the assumption \<open>ids_fresh\<close>, true of loguru's initial state
  and kept by every call of \<^verbatim>\<open>setup_logging\<close> (lemma \<open>ids_fresh_setup_logging\<close>).
\<close>

theorem setup_logging_not_atomic:
  assumes "settings_of rt cp w = Inr s" and "log_file s = YStr f"
    and "logger_add rt (console_sink s) (logger_remove w) = (Returned, w1)"
    and "Path_mkdir (Path_parent (Path f)) w1 = (Raised e, w')
       \<or> (\<exists>w2. Path_mkdir (Path_parent (Path f)) w1 = (Returned, w2)
           \<and> logger_add rt (file_sink rt s) w2 = (Raised e, w'))"
    and "ids_fresh w"
  shows "setup_logging rt cp w = (Raised e, w')
       \<and> (\<exists>n. handlers w' = [\<lparr>h_id = handlers_count w, h_sink = console_sink s, h_levelno = n\<rparr>]
             \<and> sinks_of w' \<noteq> [(console_sink s, n), (file_sink rt s, n)])
       \<and> handlers w' \<noteq> handlers w
       \<and> set (handlers w') \<inter> set (handlers w) = {}"
proof -
  from assms(3) obtain k where k: "resolve_level w (log_level s) = Inr k"
    and w1: "w1 = after_console s k w"
    by (auto simp: add_console_Returned)
  have r: "setup_logging rt cp w = (Raised e, w')"
    and h: "handlers w' = handlers w1"
    using assms(4)
  proof -
    from assms(4) show "setup_logging rt cp w = (Raised e, w')"
      using setup_logging_mkdir_raises [OF assms(1) k assms(2)]
        setup_logging_add_raises [OF assms(1) k assms(2)] w1 by auto
    from assms(4) show "handlers w' = handlers w1"
    proof
      assume "Path_mkdir (Path_parent (Path f)) w1 = (Raised e, w')"
      from Path_mkdir_grows [OF this] show ?thesis by (simp add: grows_def same_logger_def)
    next
      assume "\<exists>w2. Path_mkdir (Path_parent (Path f)) w1 = (Returned, w2)
           \<and> logger_add rt (file_sink rt s) w2 = (Raised e, w')"
      then obtain w2 where m: "Path_mkdir (Path_parent (Path f)) w1 = (Returned, w2)"
        and a: "logger_add rt (file_sink rt s) w2 = (Raised e, w')" by blast
      from Path_mkdir_grows [OF m] logger_add_Raised_handlers [OF a]
      show ?thesis by (simp add: grows_def same_logger_def)
    qed
  qed
  have h': "handlers w' = [\<lparr>h_id = handlers_count w, h_sink = console_sink s, h_levelno = k\<rparr>]"
    by (simp add: h w1)
  from ids_fresh_after [OF assms(5)] have nin:
    "\<lparr>h_id = handlers_count w, h_sink = console_sink s, h_levelno = k\<rparr> \<notin> set (handlers w)" .
  then have "handlers w' \<noteq> handlers w" unfolding h' by (metis list.set_intros(1))
  moreover from nin have "set (handlers w') \<inter> set (handlers w) = {}" by (simp add: h')
  moreover have "sinks_of w' \<noteq> [(console_sink s, k), (file_sink rt s, k)]"
    by (simp add: sinks_of_def h')
  ultimately show ?thesis using r h' by blast
qed

theorem setup_logging_not_atomic_witness:
  "ids_fresh (with_file ''logs'' ''x'' fresh_world)
   \<and> fst (setup_logging example_runtime ''config.yaml'' (with_file ''logs'' ''x'' fresh_world))
       = Raised (OSError EEXIST)
   \<and> handlers (snd (setup_logging example_runtime ''config.yaml''
         (with_file ''logs'' ''x'' fresh_world)))
       \<noteq> handlers (with_file ''logs'' ''x'' fresh_world)
   \<and> sinks_of (snd (setup_logging example_runtime ''config.yaml''
         (with_file ''logs'' ''x'' fresh_world)))
       = [(console_sink \<lparr>log_level = YStr ''INFO'', log_file = YStr ''logs/bot.log'',
            max_size_mb = YInt 10, backup_count = YInt 5\<rparr>, 20)]
   \<and> ids_fresh (fresh_world\<lparr>denied := {[''logs'', ''bot.log'']}\<rparr>)
   \<and> fst (setup_logging example_runtime ''config.yaml''
          (fresh_world\<lparr>denied := {[''logs'', ''bot.log'']}\<rparr>))
       = Raised (OSError EACCES)
   \<and> handlers (snd (setup_logging example_runtime ''config.yaml''
         (fresh_world\<lparr>denied := {[''logs'', ''bot.log'']}\<rparr>)))
       \<noteq> handlers (fresh_world\<lparr>denied := {[''logs'', ''bot.log'']}\<rparr>)"
proof -
  let ?d = "\<lparr>log_level = YStr ''INFO'', log_file = YStr ''logs/bot.log'',
            max_size_mb = YInt 10, backup_count = YInt 5\<rparr>"
  let ?A = "with_file ''logs'' ''x'' fresh_world"
  let ?B = "fresh_world\<lparr>denied := {[''logs'', ''bot.log'']}\<rparr>"
  let ?A1 = "snd (logger_add example_runtime (console_sink ?d) (logger_remove ?A))"
  let ?B1 = "snd (logger_add example_runtime (console_sink ?d) (logger_remove ?B))"
  let ?q = "Path_parent (Path ''logs/bot.log'')"
  let ?B2 = "snd (Path_mkdir ?q ?B1)"
  have f: "log_file ?d = YStr ''logs/bot.log''" by simp
  have iA: "ids_fresh ?A" by code_simp
  have sA: "settings_of example_runtime ''config.yaml'' ?A = Inr ?d" by code_simp
  have "fst (logger_add example_runtime (console_sink ?d) (logger_remove ?A)) = Returned"
    by code_simp
  then have cA: "logger_add example_runtime (console_sink ?d) (logger_remove ?A) = (Returned, ?A1)"
    by (metis prod.collapse)
  have "fst (Path_mkdir ?q ?A1) = Raised (OSError EEXIST)" by code_simp
  then have mA: "Path_mkdir ?q ?A1 = (Raised (OSError EEXIST), snd (Path_mkdir ?q ?A1))"
    by (metis prod.collapse)
  have eA: "sinks_of (snd (setup_logging example_runtime ''config.yaml'' ?A))
              = [(console_sink ?d, 20)]"
    by code_simp
  have iB: "ids_fresh ?B" by code_simp
  have sB: "settings_of example_runtime ''config.yaml'' ?B = Inr ?d" by code_simp
  have "fst (logger_add example_runtime (console_sink ?d) (logger_remove ?B)) = Returned"
    by code_simp
  then have cB: "logger_add example_runtime (console_sink ?d) (logger_remove ?B) = (Returned, ?B1)"
    by (metis prod.collapse)
  have "fst (Path_mkdir ?q ?B1) = Returned" by code_simp
  then have mB: "Path_mkdir ?q ?B1 = (Returned, ?B2)"
    by (metis prod.collapse)
  have "fst (logger_add example_runtime (file_sink example_runtime ?d) ?B2)
          = Raised (OSError EACCES)"
    by code_simp
  then have aB: "logger_add example_runtime (file_sink example_runtime ?d) ?B2
          = (Raised (OSError EACCES), snd (logger_add example_runtime (file_sink example_runtime ?d) ?B2))"
    by (metis prod.collapse)
  from mB aB have dB: "\<exists>w2. Path_mkdir ?q ?B1 = (Returned, w2)
           \<and> logger_add example_runtime (file_sink example_runtime ?d) w2
              = (Raised (OSError EACCES), snd (logger_add example_runtime (file_sink example_runtime ?d) ?B2))"
    by blast
  note tA = setup_logging_not_atomic [OF sA f cA disjI1 [OF mA] iA]
  note tB = setup_logging_not_atomic [OF sB f cB disjI2 [OF dB] iB]
  from tA have "fst (setup_logging example_runtime ''config.yaml'' ?A) = Raised (OSError EEXIST)"
    and "handlers (snd (setup_logging example_runtime ''config.yaml'' ?A)) \<noteq> handlers ?A"
    by simp_all
  moreover from tB have
    "fst (setup_logging example_runtime ''config.yaml'' ?B) = Raised (OSError EACCES)"
    and "handlers (snd (setup_logging example_runtime ''config.yaml'' ?B)) \<noteq> handlers ?B"
    by simp_all
  ultimately show ?thesis using iA iB eA by blast
qed

end
